theory Spec2Isabelle
  imports Main "HOL-Library.Word"
begin

section \<open>Common types\<close>

type_synonym bytes = "8 word list"

text \<open>
  Go's \<open>error\<close> values. The named constructors are the package-level errors of the
  knoxite library that the two source files return; \<open>ErrNotExist\<close> stands for an
  error on which \<open>os.IsNotExist\<close> answers true, \<open>OtherError\<close> for every other error
  of an external library (minio, os, encoding/json).
\<close>

datatype error =
    ErrInvalidUsername
  | ErrInvalidPassword
  | ErrInvalidRepositoryURL
  | ErrAvailableSpaceUnknown
  | ErrDeleteChunkFailed
  | ErrRepositoryExists
  | ErrWrongPassword
  | ErrNotExist string
  | OtherError string

text \<open>A call either panics or returns.\<close>

datatype 'a outcome = Panic string | Return 'a

section \<open>storage/amazons3/storage\_amazons3.go\<close>

subsection \<open>The object-store client\<close>

text \<open>
  The backend talks to the store through a \<open>*minio.Client\<close>. The client library is
  not part of the repository, so its calls are parameters of the model: \<open>'cl\<close> is
  the client handle, \<open>'st\<close> the state of the remote store, and a call that can change
  the store returns the new state. A client pointer is \<open>'cl option\<close>, \<open>None\<close> being
  \<open>nil\<close>. \<open>minio_GetObject\<close> answers with what \<open>ioutil.ReadAll\<close> then reads from
  the object it returns.
\<close>

record ('cl, 'st) minio =
  minio_New :: "string \<Rightarrow> string \<Rightarrow> string \<Rightarrow> bool \<Rightarrow> error + 'cl"
  minio_BucketExists :: "'cl option \<Rightarrow> 'st \<Rightarrow> string \<Rightarrow> error + bool"
  minio_MakeBucket :: "'cl option \<Rightarrow> 'st \<Rightarrow> string \<Rightarrow> string \<Rightarrow> error option \<times> 'st"
  minio_StatObject :: "'cl option \<Rightarrow> 'st \<Rightarrow> string \<Rightarrow> string \<Rightarrow> error option"
  minio_PutObject ::
    "'cl option \<Rightarrow> 'st \<Rightarrow> string \<Rightarrow> string \<Rightarrow> bytes \<Rightarrow> string \<Rightarrow> (64 word \<times> error option) \<times> 'st"
  minio_GetObject :: "'cl option \<Rightarrow> 'st \<Rightarrow> string \<Rightarrow> string \<Rightarrow> error + (bytes \<times> error option)"

subsection \<open>URLs\<close>

text \<open>
  The fields of \<open>url.URL\<close> that \<open>NewBackend\<close> reads. \<open>User\<close> is a pointer to a
  \<open>Userinfo\<close>; its methods accept the nil pointer and answer with the empty name and
  no password.
\<close>

record Userinfo =
  username :: string
  password :: string
  passwordSet :: bool

record URL =
  URL_Scheme :: string
  URL_User :: "Userinfo option"
  URL_Host :: string
  URL_Path :: string

definition Userinfo_Username :: "Userinfo option \<Rightarrow> string" where
  "Userinfo_Username u = (case u of None \<Rightarrow> [] | Some i \<Rightarrow> username i)"

definition Userinfo_Password :: "Userinfo option \<Rightarrow> string \<times> bool" where
  "Userinfo_Password u = (case u of None \<Rightarrow> ([], False) | Some i \<Rightarrow> (password i, passwordSet i))"

definition zeroURL :: URL where
  "zeroURL = \<lparr>URL_Scheme = [], URL_User = None, URL_Host = [], URL_Path = []\<rparr>"

subsection \<open>Library functions on strings\<close>

text \<open>\<open>strings.Split(s, sep)\<close> for a separator of one byte.\<close>

fun Split :: "string \<Rightarrow> char \<Rightarrow> string list" where
  "Split [] sep = [[]]"
| "Split (c # cs) sep =
     (if c = sep then [] # Split cs sep
      else (case Split cs sep of [] \<Rightarrow> [[c]] | p # ps \<Rightarrow> (c # p) # ps))"

definition digit :: "nat \<Rightarrow> char" where
  "digit d = ''0123456789'' ! d"

function decimal :: "nat \<Rightarrow> string" where
  "decimal n = (if n < 10 then [digit n] else decimal (n div 10) @ [digit (n mod 10)])"
  by pat_completeness auto
termination
  by (relation "measure id") auto

declare decimal.simps [simp del]

text \<open>\<open>strconv.FormatUint(uint64(x), 10)\<close>; \<open>uint\<close> is 64 bits wide.\<close>

definition FormatUint10 :: "64 word \<Rightarrow> string" where
  "FormatUint10 x = decimal (unat x)"

subsection \<open>The backend\<close>

record 'cl StorageAmazonS3 =
  url :: URL
  chunkBucket :: string
  snapshotBucket :: string
  repositoryBucket :: string
  region :: string
  client :: "'cl option"

text \<open>The zero value \<open>StorageAmazonS3{}\<close>.\<close>

definition zeroBackend :: "'cl StorageAmazonS3" where
  "zeroBackend =
     \<lparr>url = zeroURL, chunkBucket = [], snapshotBucket = [], repositoryBucket = [],
      region = [], client = None\<rparr>"

text \<open>
  \<open>NewBackend\<close>: the switch on the scheme sets \<open>ssl\<close> or panics; the rest of the
  function validates the URL and builds the client.
\<close>

definition NewBackend ::
  "('cl, 'st) minio \<Rightarrow> URL \<Rightarrow> ('cl StorageAmazonS3 \<times> error option) outcome" where
  "NewBackend api URL =
     (case (if URL_Scheme URL = ''s3'' then Some False
            else if URL_Scheme URL = ''s3s'' then Some True
            else None) of
        None \<Rightarrow> Panic ''Invalid s3 url scheme''
      | Some ssl \<Rightarrow>
          if Userinfo_Username (URL_User URL) = [] then Return (zeroBackend, Some ErrInvalidUsername)
          else
            (case Userinfo_Password (URL_User URL) of
               (pw, pwexist) \<Rightarrow>
                 if \<not> pwexist then Return (zeroBackend, Some ErrInvalidPassword)
                 else
                   (let regionAndBucketPrefix = Split (URL_Path URL) CHR ''/'' in
                    if length regionAndBucketPrefix \<noteq> 3
                    then Return (zeroBackend, Some ErrInvalidRepositoryURL)
                    else
                      (case minio_New api (URL_Host URL) (Userinfo_Username (URL_User URL)) pw ssl of
                         Inl err \<Rightarrow> Return (zeroBackend, Some err)
                       | Inr cl \<Rightarrow>
                           Return
                             (\<lparr>url = URL,
                               chunkBucket = regionAndBucketPrefix ! 2 @ ''-chunks'',
                               snapshotBucket = regionAndBucketPrefix ! 2 @ ''-snapshots'',
                               repositoryBucket = regionAndBucketPrefix ! 2 @ ''-repository'',
                               region = regionAndBucketPrefix ! 1,
                               client = Some cl\<rparr>, None)))))"

definition Protocols :: "'cl StorageAmazonS3 \<Rightarrow> string list" where
  "Protocols backend = [''s3'', ''s3s'']"

definition AvailableSpace :: "'cl StorageAmazonS3 \<Rightarrow> 64 word \<times> error option" where
  "AvailableSpace backend = (0, Some ErrAvailableSpaceUnknown)"

text \<open>The name of a shard's blob, as \<open>LoadChunk\<close> and \<open>StoreChunk\<close> build it.\<close>

definition chunkFileName :: "string \<Rightarrow> 64 word \<Rightarrow> 64 word \<Rightarrow> string" where
  "chunkFileName shasum part totalParts =
     shasum @ ''.'' @ FormatUint10 part @ ''_'' @ FormatUint10 totalParts"

definition LoadChunk ::
  "('cl, 'st) minio \<Rightarrow> 'cl StorageAmazonS3 \<Rightarrow> 'st \<Rightarrow> string \<Rightarrow> 64 word \<Rightarrow> 64 word
     \<Rightarrow> bytes option \<times> error option" where
  "LoadChunk api backend st shasum part totalParts =
     (let fileName = chunkFileName shasum part totalParts in
      case minio_GetObject api (client backend) st (chunkBucket backend) fileName of
        Inl err \<Rightarrow> (None, Some err)
      | Inr (data, err) \<Rightarrow> (Some data, err))"

definition StoreChunk ::
  "('cl, 'st) minio \<Rightarrow> 'cl StorageAmazonS3 \<Rightarrow> 'st \<Rightarrow> string \<Rightarrow> 64 word \<Rightarrow> 64 word \<Rightarrow> bytes
     \<Rightarrow> (64 word \<times> error option) \<times> 'st" where
  "StoreChunk api backend st shasum part totalParts data =
     (let fileName = chunkFileName shasum part totalParts in
      case minio_StatObject api (client backend) st (chunkBucket backend) fileName of
        None \<Rightarrow> ((0, None), st)
      | Some _ \<Rightarrow>
          (case minio_PutObject api (client backend) st (chunkBucket backend) fileName data
                  ''application/octet-stream'' of
             ((i, err), st') \<Rightarrow> ((i, err), st')))"

definition DeleteChunk ::
  "('cl, 'st) minio \<Rightarrow> 'cl StorageAmazonS3 \<Rightarrow> 'st \<Rightarrow> string \<Rightarrow> 64 word \<Rightarrow> 64 word
     \<Rightarrow> error option \<times> 'st" where
  "DeleteChunk api backend st shasum part totalParts = (Some ErrDeleteChunkFailed, st)"

definition LoadSnapshot ::
  "('cl, 'st) minio \<Rightarrow> 'cl StorageAmazonS3 \<Rightarrow> 'st \<Rightarrow> string \<Rightarrow> bytes \<times> error option" where
  "LoadSnapshot api backend st ident =
     (case minio_GetObject api (client backend) st (snapshotBucket backend) ident of
        Inl err \<Rightarrow> ([], Some err)
      | Inr (data, err) \<Rightarrow> (data, err))"

definition SaveSnapshot ::
  "('cl, 'st) minio \<Rightarrow> 'cl StorageAmazonS3 \<Rightarrow> 'st \<Rightarrow> string \<Rightarrow> bytes \<Rightarrow> error option \<times> 'st" where
  "SaveSnapshot api backend st ident data =
     (case minio_PutObject api (client backend) st (snapshotBucket backend) ident data
             ''application/octet-stream'' of
        ((_, err), st') \<Rightarrow> (err, st'))"

definition InitRepository ::
  "('cl, 'st) minio \<Rightarrow> 'cl StorageAmazonS3 \<Rightarrow> 'st \<Rightarrow> error option \<times> 'st" where
  "InitRepository api backend st =
     (case minio_BucketExists api (client backend) st (chunkBucket backend) of
        Inl err \<Rightarrow> (Some err, st)
      | Inr chunkBucketExist \<Rightarrow>
          if chunkBucketExist then (Some ErrRepositoryExists, st)
          else
            (case minio_MakeBucket api (client backend) st (chunkBucket backend) (region backend) of
               (Some err, st1) \<Rightarrow> (Some err, st1)
             | (None, st1) \<Rightarrow>
                 (case minio_BucketExists api (client backend) st1 (snapshotBucket backend) of
                    Inl err \<Rightarrow> (Some err, st1)
                  | Inr snapshotBucketExist \<Rightarrow>
                      if snapshotBucketExist then (Some ErrRepositoryExists, st1)
                      else
                        (case minio_MakeBucket api (client backend) st1 (snapshotBucket backend)
                                (region backend) of
                           (Some err, st2) \<Rightarrow> (Some err, st2)
                         | (None, st2) \<Rightarrow>
                             (case minio_BucketExists api (client backend) st2
                                     (repositoryBucket backend) of
                                Inl err \<Rightarrow> (Some err, st2)
                              | Inr repositoryBucketExist \<Rightarrow>
                                  if repositoryBucketExist then (Some ErrRepositoryExists, st2)
                                  else
                                    (case minio_MakeBucket api (client backend) st2
                                            (repositoryBucket backend) (region backend) of
                                       (Some err, st3) \<Rightarrow> (Some err, st3)
                                     | (None, st3) \<Rightarrow> (None, st3)))))))"

subsection \<open>What is assumed of the store\<close>

text \<open>
  The properties of the backend speak of blobs and namespaces that exist. \<open>view\<close> reads
  the buckets of a store state: a missing bucket is \<open>None\<close>, an existing one is the
  map from object names to contents. The predicates below say that the client reports
  and changes the store truthfully; they are hypotheses of the theorems that need them
  and are discharged for the in-memory client \<open>memApi\<close>.
\<close>

type_synonym 'st view = "'st \<Rightarrow> string \<Rightarrow> (string \<rightharpoonup> bytes) option"

definition blobExists :: "'st view \<Rightarrow> 'st \<Rightarrow> string \<Rightarrow> string \<Rightarrow> bool" where
  "blobExists view st bucket name =
     (case view st bucket of None \<Rightarrow> False | Some objs \<Rightarrow> objs name \<noteq> None)"

definition statExact :: "('cl, 'st) minio \<Rightarrow> 'st view \<Rightarrow> bool" where
  "statExact api view =
     (\<forall>cl st bucket name.
        (minio_StatObject api (Some cl) st bucket name = None) = blobExists view st bucket name)"

definition putStores :: "('cl, 'st) minio \<Rightarrow> 'st view \<Rightarrow> bool" where
  "putStores api view =
     (\<forall>cl st bucket name data ct i st'.
        minio_PutObject api (Some cl) st bucket name data ct = ((i, None), st') \<longrightarrow>
          i = of_nat (length data) \<and>
          (\<exists>objs. view st bucket = Some objs \<and> view st' = (view st)(bucket \<mapsto> objs(name \<mapsto> data))))"

definition getReads :: "('cl, 'st) minio \<Rightarrow> 'st view \<Rightarrow> bool" where
  "getReads api view =
     (\<forall>cl st bucket name objs data.
        view st bucket = Some objs \<and> objs name = Some data \<longrightarrow>
          minio_GetObject api (Some cl) st bucket name = Inr (data, None))"

definition bucketsExact :: "('cl, 'st) minio \<Rightarrow> 'st view \<Rightarrow> bool" where
  "bucketsExact api view =
     (\<forall>cl st bucket.
        minio_BucketExists api (Some cl) st bucket = Inr (view st bucket \<noteq> None))"

definition makeCreates :: "('cl, 'st) minio \<Rightarrow> 'st view \<Rightarrow> bool" where
  "makeCreates api view =
     (\<forall>cl st bucket location.
        view st bucket = None \<longrightarrow>
          (\<exists>st'. minio_MakeBucket api (Some cl) st bucket location = (None, st') \<and>
                 view st' = (view st)(bucket \<mapsto> Map.empty)))"

subsection \<open>An in-memory client\<close>

type_synonym memStore = "string \<rightharpoonup> (string \<rightharpoonup> bytes)"

definition memApi :: "(bool, memStore) minio" where
  "memApi =
     \<lparr>minio_New = (\<lambda>host user pw ssl. Inr ssl),
      minio_BucketExists = (\<lambda>cl st bucket. Inr (st bucket \<noteq> None)),
      minio_MakeBucket = (\<lambda>cl st bucket location.
         case st bucket of
           None \<Rightarrow> (None, st(bucket \<mapsto> Map.empty))
         | Some _ \<Rightarrow> (Some (OtherError ''BucketAlreadyOwnedByYou''), st)),
      minio_StatObject = (\<lambda>cl st bucket name.
         case st bucket of
           None \<Rightarrow> Some (OtherError ''NoSuchBucket'')
         | Some objs \<Rightarrow>
             (case objs name of None \<Rightarrow> Some (OtherError ''NoSuchKey'') | Some _ \<Rightarrow> None)),
      minio_PutObject = (\<lambda>cl st bucket name data ct.
         case st bucket of
           None \<Rightarrow> ((0, Some (OtherError ''NoSuchBucket'')), st)
         | Some objs \<Rightarrow> ((of_nat (length data), None), st(bucket \<mapsto> objs(name \<mapsto> data)))),
      minio_GetObject = (\<lambda>cl st bucket name.
         case st bucket of
           None \<Rightarrow> Inl (OtherError ''NoSuchBucket'')
         | Some objs \<Rightarrow>
             (case objs name of
                None \<Rightarrow> Inl (OtherError ''NoSuchKey'')
              | Some data \<Rightarrow> Inr (data, None)))\<rparr>"

definition memView :: "memStore view" where
  "memView st = st"

definition memBackend :: "bool StorageAmazonS3" where
  "memBackend =
     \<lparr>url = \<lparr>URL_Scheme = ''s3'', URL_User = Some \<lparr>username = ''u'', password = ''p'', passwordSet = True\<rparr>,
             URL_Host = ''h'', URL_Path = ''/r/b''\<rparr>,
      chunkBucket = ''b-chunks'', snapshotBucket = ''b-snapshots'',
      repositoryBucket = ''b-repository'', region = ''r'', client = Some False\<rparr>"

section \<open>Library functions on paths\<close>

text \<open>\<open>strings.HasPrefix\<close> and \<open>strings.Join\<close>.\<close>

definition HasPrefix :: "string \<Rightarrow> string \<Rightarrow> bool" where
  "HasPrefix s p = (take (length p) s = p)"

fun Join :: "string list \<Rightarrow> string \<Rightarrow> string" where
  "Join [] sep = []"
| "Join [e] sep = e"
| "Join (e # es) sep = e @ sep @ Join es sep"

text \<open>
  \<open>filepath.Clean\<close> and \<open>filepath.Rel\<close> of Go's standard library, on a system whose
  separator is the slash and whose paths have no volume name. They are written over
  the elements of a path. \<open>cleanElems\<close> is the loop of \<open>Clean\<close>: \<open>out\<close> holds the
  elements written so far, an empty or \<open>.\<close> element is dropped, and \<open>..\<close> removes
  the last element written unless there is none or it is itself a \<open>..\<close>; it is then
  kept in a relative path and dropped in a rooted one.
\<close>

fun cleanElems :: "bool \<Rightarrow> string list \<Rightarrow> string list \<Rightarrow> string list" where
  "cleanElems rooted out [] = out"
| "cleanElems rooted out (e # es) =
     (if e = [] \<or> e = ''.'' then cleanElems rooted out es
      else if e = ''..'' then
        (if out \<noteq> [] \<and> last out \<noteq> ''..'' then cleanElems rooted (butlast out) es
         else if \<not> rooted then cleanElems rooted (out @ [''..'']) es
         else cleanElems rooted out es)
      else cleanElems rooted (out @ [e]) es)"

definition Clean :: "string \<Rightarrow> string" where
  "Clean path =
     (if path = [] then ''.''
      else
        (let rooted = (hd path = CHR ''/'');
             out = (if rooted then ''/'' else []) @
                   Join (cleanElems rooted [] (Split path CHR ''/'')) ''/''
         in if out = [] then ''.'' else out))"

text \<open>
  The elements \<open>Rel\<close> walks over in a cleaned path: none for the empty path, and the
  root \<open>/\<close> has the single empty element before its slash.
\<close>

definition relElems :: "string \<Rightarrow> string list" where
  "relElems p = (if p = [] then [] else if p = ''/'' then [[]] else Split p CHR ''/'')"

text \<open>
  The first loop of \<open>Rel\<close> skips the elements both paths start with; the result is
  what is left of the base and of the target.
\<close>

fun skipCommon :: "string list \<Rightarrow> string list \<Rightarrow> string list \<times> string list" where
  "skipCommon (b # bs) (t # ts) = (if b = t then skipCommon bs ts else (b # bs, t # ts))"
| "skipCommon bs ts = (bs, ts)"

text \<open>
  \<open>Rel\<close>: equal cleaned paths give \<open>.\<close>; a cleaned \<open>.\<close> on either side stands for
  the empty path; a rooted and an unrooted path are not related; a base that still has
  a \<open>..\<close> after the common elements is not related to anything; otherwise the result
  goes up once for each element left of the base and then down the elements left of
  the target.
\<close>

definition Rel :: "string \<Rightarrow> string \<Rightarrow> error + string" where
  "Rel basepath targpath =
     (let base = Clean basepath; targ = Clean targpath in
      if targ = base then Inr ''.''
      else
        (let base = (if base = ''.'' then [] else base);
             targ = (if targ = ''.'' then [] else targ);
             baseSlashed = (base \<noteq> [] \<and> hd base = CHR ''/'');
             targSlashed = (targ \<noteq> [] \<and> hd targ = CHR ''/'')
         in if baseSlashed \<noteq> targSlashed
            then Inl (OtherError (''Rel: can't make '' @ targpath @ '' relative to '' @ basepath))
            else
              (case skipCommon (relElems base) (relElems targ) of
                 (bs, ts) \<Rightarrow>
                   if bs \<noteq> [] \<and> hd bs = ''..''
                   then Inl (OtherError
                          (''Rel: can't make '' @ targpath @ '' relative to '' @ basepath))
                   else if bs \<noteq> []
                   then Inr (Join (replicate (length bs) ''..'' @
                                  (if ts \<noteq> [] then [Join ts ''/''] else [])) ''/'')
                   else Inr (Join ts ''/''))))"

text \<open>\<open>os.IsNotExist\<close>.\<close>

definition IsNotExist :: "error \<Rightarrow> bool" where
  "IsNotExist err = (case err of ErrNotExist _ \<Rightarrow> True | _ \<Rightarrow> False)"

section \<open>lib/snapshot.go\<close>

subsection \<open>Data\<close>

text \<open>
  The structs below are declared in files of the library that are not at hand; each
  has the fields \<open>snapshot.go\<close> reads or writes.
\<close>

text \<open>
  Modelled from the spec: the aggregate statistics are the total logical size, the
  transferred bytes and the storage bytes; the declaration of \<open>Stats\<close> is missing.
\<close>

record Stats =
  Size :: "64 word"
  StorageSize :: "64 word"
  Transferred :: "64 word"

definition zeroStats :: Stats where
  "zeroStats = \<lparr>Size = 0, StorageSize = 0, Transferred = 0\<rparr>"

text \<open>
  Modelled from the spec: a chunk carries its content hash, its ordinal, its shard
  counts, its original size and its shards; the declaration of \<open>Chunk\<close> is
  missing. \<open>OriginalSize\<close> is an \<open>int\<close>, which \<open>uint64(...)\<close> reinterprets.
\<close>

record Chunk =
  Chunk_ShaSum :: string
  Chunk_Num :: nat
  Chunk_DataParts :: "64 word"
  Chunk_ParityParts :: "64 word"
  Chunk_OriginalSize :: "64 word"
  Chunk_Data :: "bytes list"

datatype ArchiveType = File | Directory | SymLink

text \<open>
  Modelled from the spec: an archive has a path, a type, a logical size, a storage
  size, the codec ids and its ordered chunks; the declaration of \<open>Archive\<close> is
  missing.
\<close>

record Archive =
  Archive_Path :: string
  Archive_Type :: ArchiveType
  Archive_Size :: "64 word"
  Archive_StorageSize :: "64 word"
  Archive_Encrypted :: "16 word"
  Archive_Compressed :: "16 word"
  Archive_Chunks :: "Chunk list"

text \<open>
  \<open>ArchiveResult\<close> and the chunker's results hold either an error or a value; the
  code looks at the value only when the error is nil.
\<close>

type_synonym ArchiveResult = "error + Archive"
type_synonym ChunkResult = "error + Chunk"

record Progress =
  Progress_Path :: string
  CurrentItemStats :: Stats
  TotalStatistics :: Stats
  Progress_Error :: "error option"

text \<open>
  Modelled from the spec: the per-file progress event names the archive and starts
  its item statistics from the archive's sizes; \<open>newProgress\<close> is missing.
\<close>

definition newProgress :: "Archive \<Rightarrow> Progress" where
  "newProgress archive =
     \<lparr>Progress_Path = Archive_Path archive,
      CurrentItemStats =
        \<lparr>Size = Archive_Size archive, StorageSize = Archive_StorageSize archive,
         Transferred = 0\<rparr>,
      TotalStatistics = zeroStats,
      Progress_Error = None\<rparr>"

text \<open>
  Modelled from the spec: the terminal progress event carries the error it is given
  and nothing else; \<open>newProgressError\<close> is missing. Its argument is a Go \<open>error\<close>,
  which may be nil.
\<close>

definition newProgressError :: "error option \<Rightarrow> Progress" where
  "newProgressError err =
     \<lparr>Progress_Path = [], CurrentItemStats = zeroStats, TotalStatistics = zeroStats,
      Progress_Error = err\<rparr>"

text \<open>What happens on the progress channel, in order.\<close>

datatype chanop = Send Progress | Close

text \<open>\<open>Date\<close> is a \<open>time.Time\<close>, here an instant in nanoseconds.\<close>

record Snapshot =
  ID :: string
  Date :: int
  Description :: string
  Stats :: Stats
  Archives :: "string \<rightharpoonup> Archive"

text \<open>
  The zero value \<open>Snapshot{}\<close>, into which \<open>openSnapshot\<close> decodes. Its map of
  archives is nil in Go, which reads like the empty map.
\<close>

definition zeroSnapshot :: Snapshot where
  "zeroSnapshot =
     \<lparr>ID = [], Date = 0, Description = [], Stats = zeroStats, Archives = Map.empty\<rparr>"

text \<open>
  \<open>NewSnapshot\<close> (lines 35 to 49): \<open>now\<close> is what \<open>time.Now\<close> answers and \<open>u\<close> what
  \<open>uuid.NewV4\<close> answers, an error or the text of the identifier, of which the first
  eight characters become the ID. The map of archives is made here.
\<close>

definition NewSnapshot :: "int \<Rightarrow> error + string \<Rightarrow> string \<Rightarrow> Snapshot \<times> error option" where
  "NewSnapshot now u description =
     (let snapshot =
            \<lparr>ID = [], Date = now, Description = description, Stats = zeroStats,
             Archives = Map.empty\<rparr>
      in case u of
           Inl err \<Rightarrow> (snapshot, Some err)
         | Inr text \<Rightarrow> (snapshot\<lparr>ID := take 8 text\<rparr>, None))"

text \<open>
  The \<open>Backend\<close> interface, as far as \<open>snapshot.go\<close> calls it, over a store of
  type \<open>'st\<close>.
\<close>

record 'st Backend =
  Backend_StoreChunk :: "'st \<Rightarrow> Chunk \<Rightarrow> (64 word \<times> error option) \<times> 'st"
  Backend_LoadSnapshot :: "'st \<Rightarrow> string \<Rightarrow> bytes \<times> error option"
  Backend_SaveSnapshot :: "'st \<Rightarrow> string \<Rightarrow> bytes \<Rightarrow> error option \<times> 'st"

record 'st Repository =
  Version :: nat
  Password :: string
  Backend :: "'st Backend"

text \<open>
  Modelled from the spec: the compression codecs are enumerated None(0), GZip(1),
  LZMA(2); the constants are missing.
\<close>

definition CompressionNone :: "16 word" where "CompressionNone = 0"
definition CompressionGZip :: "16 word" where "CompressionGZip = 1"
definition CompressionLZMA :: "16 word" where "CompressionLZMA = 2"

subsection \<open>What the file calls\<close>

text \<open>
  The serialisation, compression and encryption functions \<open>Save\<close> and
  \<open>openSnapshot\<close> call are not at hand; they are parameters. \<open>json_Unmarshal\<close> takes
  the snapshot it decodes into.
\<close>

record codecs =
  json_Marshal :: "Snapshot \<Rightarrow> error + bytes"
  json_Unmarshal :: "bytes \<Rightarrow> Snapshot \<Rightarrow> Snapshot \<times> error option"
  Compress :: "bytes \<Rightarrow> 16 word \<Rightarrow> error + bytes"
  Uncompress :: "bytes \<Rightarrow> 16 word \<Rightarrow> error + bytes"
  Encrypt :: "bytes \<Rightarrow> string \<Rightarrow> error + bytes"
  Decrypt :: "bytes \<Rightarrow> string \<Rightarrow> error + bytes"

text \<open>
  What the backup pipeline calls: the traversal \<open>findFiles\<close> (the results its channel
  yields for a path and the exclusions), \<open>filepath.Rel\<close>, \<open>isSpecialPath\<close>, the
  chunker \<open>chunkFile\<close> (an error, or the results its channel yields), the chunk
  index's \<open>AddArchive\<close> over an index of type \<open>'idx\<close>, and \<open>uint(float64(d))\<close> for
  a \<open>d\<close> above \<open>2 ^ 53\<close>, where the conversion rounds.
\<close>

record 'idx pipeline =
  findFiles :: "string \<Rightarrow> string list \<Rightarrow> ArchiveResult list"
  filepath_Rel :: "string \<Rightarrow> string \<Rightarrow> error + string"
  isSpecialPath :: "string \<Rightarrow> bool"
  chunkFile ::
    "string \<Rightarrow> 16 word \<Rightarrow> 16 word \<Rightarrow> string \<Rightarrow> 64 word \<Rightarrow> 64 word \<Rightarrow> error + ChunkResult list"
  ChunkIndex_AddArchive :: "'idx \<Rightarrow> Archive \<Rightarrow> string \<Rightarrow> 'idx"
  uint_float64 :: "64 word \<Rightarrow> 64 word"

subsection \<open>gatherTargetInformation\<close>

text \<open>
  Lines 58 to 61, and again lines 99 to 102: the path relative to \<open>cwd\<close> replaces
  the path when \<open>Rel\<close> succeeds and its result does not start with \<open>../\<close>.
\<close>

definition relativePath :: "'idx pipeline \<Rightarrow> string \<Rightarrow> string \<Rightarrow> string" where
  "relativePath env cwd path =
     (case filepath_Rel env cwd path of
        Inr rel \<Rightarrow> if \<not> HasPrefix rel ''../'' then rel else path
      | Inl err \<Rightarrow> path)"

text \<open>
  The inner loop over the results found for one path. A result without error has its
  path made relative; a special path is skipped, otherwise the size is added to the
  statistics; every result that is not skipped is sent on.
\<close>

fun gatherResults ::
  "'idx pipeline \<Rightarrow> string \<Rightarrow> Snapshot \<Rightarrow> ArchiveResult list \<Rightarrow> Snapshot \<times> ArchiveResult list" where
  "gatherResults env cwd snapshot [] = (snapshot, [])"
| "gatherResults env cwd snapshot (Inl err # c) =
     (case gatherResults env cwd snapshot c of
        (snapshot', out) \<Rightarrow> (snapshot', Inl err # out))"
| "gatherResults env cwd snapshot (Inr archive # c) =
     (let archive = archive\<lparr>Archive_Path := relativePath env cwd (Archive_Path archive)\<rparr> in
      if isSpecialPath env (Archive_Path archive) then gatherResults env cwd snapshot c
      else
        (case gatherResults env cwd
                (snapshot\<lparr>Stats := (Stats snapshot)
                   \<lparr>Size := Size (Stats snapshot) + Archive_Size archive\<rparr>\<rparr>) c of
           (snapshot', out) \<Rightarrow> (snapshot', Inr archive # out)))"

text \<open>
  The outer loop over the paths. Each result is handed over by a goroutine of its own
  (lines 71 to 75), so the order in which the processing receives them is not fixed;
  the list is the order in which they are received when each send is taken before the
  next result is looked at.
\<close>

fun gatherTargetInformation ::
  "'idx pipeline \<Rightarrow> string \<Rightarrow> string list \<Rightarrow> string list \<Rightarrow> Snapshot
     \<Rightarrow> Snapshot \<times> ArchiveResult list" where
  "gatherTargetInformation env cwd [] excludes snapshot = (snapshot, [])"
| "gatherTargetInformation env cwd (path # paths) excludes snapshot =
     (case gatherResults env cwd snapshot (findFiles env path excludes) of
        (snapshot1, out1) \<Rightarrow>
          (case gatherTargetInformation env cwd paths excludes snapshot1 of
             (snapshot2, out2) \<Rightarrow> (snapshot2, out1 @ out2)))"

subsection \<open>Add\<close>

text \<open>
  \<open>AddArchive\<close> (line 249) writes into the map of archives. The snapshots of the
  pipeline come from \<open>NewSnapshot\<close>, which makes the map; on a snapshot whose map is
  nil the assignment panics in Go, which the map of the model does not tell apart.
\<close>

definition AddArchive :: "Snapshot \<Rightarrow> Archive \<Rightarrow> Snapshot" where
  "AddArchive snapshot archive =
     snapshot\<lparr>Archives := (Archives snapshot)(Archive_Path archive \<mapsto> archive)\<rparr>"

text \<open>
  \<open>dataParts = uint(math.Max(1, float64(dataParts)))\<close>: a count up to \<open>2 ^ 53\<close> is
  a float exactly.
\<close>

definition maxDataParts :: "'idx pipeline \<Rightarrow> 64 word \<Rightarrow> 64 word" where
  "maxDataParts env dataParts =
     (if dataParts = 0 then 1
      else if dataParts \<le> 2 ^ 53 then dataParts
      else uint_float64 env dataParts)"

text \<open>
  What the processing goroutine works on: the snapshot, the chunk index, the store
  behind the backend, the variable \<open>dataParts\<close> and the progress channel.
\<close>

record ('idx, 'st) pstate =
  st_snapshot :: Snapshot
  st_chunkIndex :: 'idx
  st_store :: 'st
  st_dataParts :: "64 word"
  st_progress :: "chanop list"

text \<open>
  The loop over the chunks of one file (lines 128 to 162). \<open>err\<close> is the variable
  \<open>err\<close> of the enclosing block, set by \<open>chunkFile\<close>; \<open>StoreChunk\<close> declares its
  own. The result says whether the goroutine has returned.
\<close>

fun Add_chunks ::
  "'st Backend \<Rightarrow> error option \<Rightarrow> Archive \<Rightarrow> Progress \<Rightarrow> ('idx, 'st) pstate \<Rightarrow> ChunkResult list
     \<Rightarrow> bool \<times> Archive \<times> ('idx, 'st) pstate" where
  "Add_chunks backend err archive p s [] = (False, archive, s)"
| "Add_chunks backend err archive p s (Inl cdError # chunkchan) =
     (True, archive, s\<lparr>st_progress := st_progress s @ [Send (newProgressError err), Close]\<rparr>)"
| "Add_chunks backend err archive p s (Inr chunk # chunkchan) =
     (case Backend_StoreChunk backend (st_store s) chunk of
        ((n, Some err'), st') \<Rightarrow>
          (True, archive,
           s\<lparr>st_store := st',
             st_progress := st_progress s @ [Send (newProgressError (Some err')), Close]\<rparr>)
      | ((n, None), st') \<Rightarrow>
          (let chunk = chunk\<lparr>Chunk_Data := []\<rparr>;
               archive = archive\<lparr>Archive_Chunks := Archive_Chunks archive @ [chunk],
                                 Archive_StorageSize := Archive_StorageSize archive + n\<rparr>;
               p = p\<lparr>CurrentItemStats := (CurrentItemStats p)
                       \<lparr>StorageSize := Archive_StorageSize archive,
                        Transferred := Transferred (CurrentItemStats p) + Chunk_OriginalSize chunk\<rparr>\<rparr>;
               stats = (Stats (st_snapshot s))
                       \<lparr>Transferred := Transferred (Stats (st_snapshot s)) + Chunk_OriginalSize chunk,
                        StorageSize := StorageSize (Stats (st_snapshot s)) + n\<rparr>;
               p = p\<lparr>TotalStatistics := stats\<rparr>
           in Add_chunks backend err archive p
                (s\<lparr>st_snapshot := (st_snapshot s)\<lparr>Stats := stats\<rparr>, st_store := st',
                   st_progress := st_progress s @ [Send p]\<rparr>) chunkchan))"

text \<open>
  The loop over the results of the discovery (lines 91 to 168). Leaving the loop,
  by its end or by \<open>break\<close>, closes the progress channel.
\<close>

fun Add_results ::
  "'idx pipeline \<Rightarrow> string \<Rightarrow> 'st Repository \<Rightarrow> 16 word \<Rightarrow> 16 word \<Rightarrow> 64 word
     \<Rightarrow> ('idx, 'st) pstate \<Rightarrow> ArchiveResult list \<Rightarrow> ('idx, 'st) pstate" where
  "Add_results env cwd repository compress encrypt parityParts s [] =
     s\<lparr>st_progress := st_progress s @ [Close]\<rparr>"
| "Add_results env cwd repository compress encrypt parityParts s (Inl err # fwd) =
     s\<lparr>st_progress := st_progress s @ [Send (newProgressError (Some err)), Close]\<rparr>"
| "Add_results env cwd repository compress encrypt parityParts s (Inr archive # fwd) =
     (let archive = archive\<lparr>Archive_Path := relativePath env cwd (Archive_Path archive)\<rparr> in
      if isSpecialPath env (Archive_Path archive)
      then Add_results env cwd repository compress encrypt parityParts s fwd
      else
        (let p = (newProgress archive)\<lparr>TotalStatistics := Stats (st_snapshot s)\<rparr>;
             s = s\<lparr>st_progress := st_progress s @ [Send p]\<rparr>
         in if Archive_Type archive = File then
              (let s = s\<lparr>st_dataParts := maxDataParts env (st_dataParts s)\<rparr> in
               case chunkFile env (Archive_Path archive) compress encrypt (Password repository)
                      (st_dataParts s) parityParts of
                 Inl err \<Rightarrow>
                   if IsNotExist err
                   then Add_results env cwd repository compress encrypt parityParts s fwd
                   else s\<lparr>st_progress := st_progress s @ [Send (newProgressError (Some err)), Close]\<rparr>
               | Inr chunkchan \<Rightarrow>
                   (let archive = archive\<lparr>Archive_Encrypted := encrypt,
                                          Archive_Compressed := compress\<rparr> in
                    case Add_chunks (Backend repository) None archive p s chunkchan of
                      (True, archive, s) \<Rightarrow> s
                    | (False, archive, s) \<Rightarrow>
                        Add_results env cwd repository compress encrypt parityParts
                          (s\<lparr>st_snapshot := AddArchive (st_snapshot s) archive,
                             st_chunkIndex :=
                               ChunkIndex_AddArchive env (st_chunkIndex s) archive
                                 (ID (st_snapshot s))\<rparr>) fwd))
            else
              Add_results env cwd repository compress encrypt parityParts
                (s\<lparr>st_snapshot := AddArchive (st_snapshot s) archive,
                   st_chunkIndex :=
                     ChunkIndex_AddArchive env (st_chunkIndex s) archive (ID (st_snapshot s))\<rparr>) fwd))"

text \<open>
  \<open>Add\<close> starts the discovery and the processing, which run side by side. \<open>Add\<close>
  below is the run in which the discovery has handed over all its results, in the
  order it found them, before the processing starts: in other runs the results arrive
  in another order and the events carry a smaller total size. What is proved of the
  processing is proved of \<open>Add_results\<close> for any list of results and any state, and
  so for every order of arrival.
\<close>

definition Add ::
  "'idx pipeline \<Rightarrow> Snapshot \<Rightarrow> string \<Rightarrow> string list \<Rightarrow> string list \<Rightarrow> 'st Repository \<Rightarrow> 'idx
     \<Rightarrow> 16 word \<Rightarrow> 16 word \<Rightarrow> 64 word \<Rightarrow> 64 word \<Rightarrow> 'st \<Rightarrow> ('idx, 'st) pstate" where
  "Add env snap cwd paths excludes repository index compress encrypt dParts parityParts st =
     (case gatherTargetInformation env cwd paths excludes snap of
        (snap', fwd) \<Rightarrow>
          Add_results env cwd repository compress encrypt parityParts
            \<lparr>st_snapshot = snap', st_chunkIndex = index, st_store = st,
             st_dataParts = dParts, st_progress = []\<rparr> fwd)"

subsection \<open>openSnapshot and Save\<close>

definition openSnapshot ::
  "codecs \<Rightarrow> string \<Rightarrow> 'st Repository \<Rightarrow> 'st \<Rightarrow> Snapshot \<times> error option" where
  "openSnapshot lib ident repository st =
     (let snapshot = zeroSnapshot in
      case Backend_LoadSnapshot (Backend repository) st ident of
        (b, Some err) \<Rightarrow> (snapshot, Some err)
      | (b, None) \<Rightarrow>
          (case Decrypt lib b (Password repository) of
             Inl err \<Rightarrow> (snapshot, Some err)
           | Inr b \<Rightarrow>
               (let compression =
                      (if Version repository = 1 then CompressionGZip
                       else if Version repository = 2 then CompressionLZMA
                       else CompressionNone)
                in case (if compression \<noteq> CompressionNone then Uncompress lib b compression
                         else Inr b) of
                     Inl err \<Rightarrow> (snapshot, Some err)
                   | Inr b \<Rightarrow> json_Unmarshal lib b snapshot)))"

text \<open>
  \<open>Save\<close>. Line 224, \<open>b := buf.Bytes()\<close>, binds \<open>b\<close> anew from a buffer \<open>buf\<close> that
  the file does not declare; \<open>buf\<close> is a parameter here, the bytes that buffer holds.
  From that line on the bytes \<open>json.Marshal\<close> returned are not used: it is the bytes
  of \<open>buf\<close> that are compressed, encrypted and written.
\<close>

definition Save ::
  "codecs \<Rightarrow> bytes \<Rightarrow> Snapshot \<Rightarrow> 'st Repository \<Rightarrow> 'st \<Rightarrow> error option \<times> 'st" where
  "Save lib buf snapshot repository st =
     (case json_Marshal lib snapshot of
        Inl err \<Rightarrow> (Some err, st)
      | Inr b \<Rightarrow>
          (let b = buf;
               compression =
                 (if Version repository = 1 then CompressionGZip
                  else if Version repository = 2 then CompressionLZMA
                  else CompressionNone)
           in case (if compression \<noteq> CompressionNone then Compress lib b compression
                    else Inr b) of
                Inl err \<Rightarrow> (Some err, st)
              | Inr b \<Rightarrow>
                  (case Encrypt lib b (Password repository) of
                     Inl err \<Rightarrow> (Some err, st)
                   | Inr b \<Rightarrow> Backend_SaveSnapshot (Backend repository) st (ID snapshot) b)))"

subsection \<open>The persistence pipeline in the words of the specification\<close>

text \<open>
  The specification keys the metadata codec off the repository version: version 1 is
  GZip, version 2 is LZMA, any other version is no compression. \<open>spec_Store\<close> is
  what it does with the serialised bytes for a given codec: compress, encrypt, write
  under the id; \<open>spec_Save\<close> serialises the snapshot and stores the result; and
  \<open>spec_Load\<close> is the inverse pipeline: load, decrypt, uncompress, unmarshal. With
  the codec None the compression functions are not called.
\<close>

definition spec_metadataCodec :: "nat \<Rightarrow> 16 word" where
  "spec_metadataCodec version =
     (if version = 1 then CompressionGZip
      else if version = 2 then CompressionLZMA
      else CompressionNone)"

definition spec_Store ::
  "codecs \<Rightarrow> 16 word \<Rightarrow> bytes \<Rightarrow> string \<Rightarrow> 'st Repository \<Rightarrow> 'st \<Rightarrow> error option \<times> 'st" where
  "spec_Store lib codec plain ident r st =
     (case (if codec = CompressionNone then Inr plain else Compress lib plain codec) of
        Inl err \<Rightarrow> (Some err, st)
      | Inr packed \<Rightarrow>
          (case Encrypt lib packed (Password r) of
             Inl err \<Rightarrow> (Some err, st)
           | Inr sealed \<Rightarrow> Backend_SaveSnapshot (Backend r) st ident sealed))"

definition spec_Save ::
  "codecs \<Rightarrow> 16 word \<Rightarrow> Snapshot \<Rightarrow> 'st Repository \<Rightarrow> 'st \<Rightarrow> error option \<times> 'st" where
  "spec_Save lib codec s r st =
     (case json_Marshal lib s of
        Inl err \<Rightarrow> (Some err, st)
      | Inr plain \<Rightarrow> spec_Store lib codec plain (ID s) r st)"

definition spec_Load ::
  "codecs \<Rightarrow> 16 word \<Rightarrow> string \<Rightarrow> 'st Repository \<Rightarrow> 'st \<Rightarrow> Snapshot \<times> error option" where
  "spec_Load lib codec ident r st =
     (case Backend_LoadSnapshot (Backend r) st ident of
        (sealed, Some err) \<Rightarrow> (zeroSnapshot, Some err)
      | (sealed, None) \<Rightarrow>
          (case Decrypt lib sealed (Password r) of
             Inl err \<Rightarrow> (zeroSnapshot, Some err)
           | Inr packed \<Rightarrow>
               (case (if codec = CompressionNone then Inr packed
                      else Uncompress lib packed codec) of
                  Inl err \<Rightarrow> (zeroSnapshot, Some err)
                | Inr plain \<Rightarrow> json_Unmarshal lib plain zeroSnapshot)))"

subsection \<open>What is assumed of the codecs and of a backend\<close>

text \<open>
  Decoding undoes encoding: what \<open>Compress\<close> produced, \<open>Uncompress\<close> with the same
  codec turns back, and what \<open>Encrypt\<close> produced, \<open>Decrypt\<close> with the same password
  turns back.
\<close>

definition codecsInvert :: "codecs \<Rightarrow> bool" where
  "codecsInvert lib =
     ((\<forall>b c z. Compress lib b c = Inr z \<longrightarrow> Uncompress lib z c = Inr b) \<and>
      (\<forall>b p c. Encrypt lib b p = Inr c \<longrightarrow> Decrypt lib c p = Inr b))"

text \<open>The JSON of the snapshot \<open>s\<close> decodes, into an empty snapshot, to \<open>s\<close>.\<close>

definition jsonInverts :: "codecs \<Rightarrow> Snapshot \<Rightarrow> bool" where
  "jsonInverts lib s =
     (\<forall>b. json_Marshal lib s = Inr b \<longrightarrow> json_Unmarshal lib b zeroSnapshot = (s, None))"

text \<open>A backend hands back the bytes it saved without error under an id.\<close>

definition keepsSnapshots :: "'st Backend \<Rightarrow> bool" where
  "keepsSnapshots backend =
     (\<forall>st ident b st'.
        Backend_SaveSnapshot backend st ident b = (None, st') \<longrightarrow>
          Backend_LoadSnapshot backend st' ident = (b, None))"

text \<open>
  Modelled from the spec: \<open>Decrypt\<close> is missing. The specification has it fail with
  the distinct wrong-password error when authentication fails, and has a snapshot
  saved with one password not load with another; so a ciphertext made with \<open>p1\<close> is
  rejected with \<open>ErrWrongPassword\<close> under every other password.
\<close>

definition authenticated :: "codecs \<Rightarrow> bool" where
  "authenticated lib =
     (\<forall>b p1 p2 c. Encrypt lib b p1 = Inr c \<longrightarrow> p2 \<noteq> p1 \<longrightarrow>
        Decrypt lib c p2 = Inl ErrWrongPassword)"

subsection \<open>The events and archives of the processing\<close>

text \<open>
  Names for what the processing loop builds at lines 98 to 110: the archive of a
  result with its path made relative, and the event sent first for an archive, which
  carries the statistics of the snapshot.
\<close>

definition relativeArchive :: "'idx pipeline \<Rightarrow> string \<Rightarrow> Archive \<Rightarrow> Archive" where
  "relativeArchive env cwd archive =
     archive\<lparr>Archive_Path := relativePath env cwd (Archive_Path archive)\<rparr>"

definition startEvent :: "Snapshot \<Rightarrow> Archive \<Rightarrow> Progress" where
  "startEvent snap archive = (newProgress archive)\<lparr>TotalStatistics := Stats snap\<rparr>"

section \<open>Example instances\<close>

text \<open>
  Small instances of the parameters, on which the theorems are exercised. The backend
  of the example repository saves and loads snapshots through the S3 backend over the
  in-memory client, and stores a chunk as one blob.
\<close>

definition byte :: "char \<Rightarrow> 8 word" where
  "byte c = of_nat (of_char c)"

definition passwordTag :: "string \<Rightarrow> bytes" where
  "passwordTag p = concat (map (\<lambda>c. [1, byte c]) p) @ [0]"

definition exCodecs :: codecs where
  "exCodecs =
     \<lparr>json_Marshal = (\<lambda>s. Inr (map byte (ID s))),
      json_Unmarshal = (\<lambda>b s. (s\<lparr>ID := map (\<lambda>w. char_of (unat w)) b\<rparr>, None)),
      Compress = (\<lambda>b c. Inr (ucast c # b)),
      Uncompress = (\<lambda>z c.
         case z of
           [] \<Rightarrow> Inl (OtherError ''unexpected EOF'')
         | t # b \<Rightarrow> if t = ucast c then Inr b else Inl (OtherError ''invalid header'')),
      Encrypt = (\<lambda>b p. Inr (passwordTag p @ b)),
      Decrypt = (\<lambda>c p.
         if take (length (passwordTag p)) c = passwordTag p
         then Inr (drop (length (passwordTag p)) c)
         else Inl ErrWrongPassword)\<rparr>"

definition exBackend :: "memStore Backend" where
  "exBackend =
     \<lparr>Backend_StoreChunk = (\<lambda>st chunk.
         StoreChunk memApi memBackend st (Chunk_ShaSum chunk) 0 1 (concat (Chunk_Data chunk))),
      Backend_LoadSnapshot = LoadSnapshot memApi memBackend,
      Backend_SaveSnapshot = SaveSnapshot memApi memBackend\<rparr>"

definition exRepository :: "nat \<Rightarrow> string \<Rightarrow> memStore Repository" where
  "exRepository version pw = \<lparr>Version = version, Password = pw, Backend = exBackend\<rparr>"

definition exStore :: memStore where
  "exStore = [''b-chunks'' \<mapsto> Map.empty, ''b-snapshots'' \<mapsto> Map.empty,
              ''b-repository'' \<mapsto> Map.empty]"

text \<open>A snapshot as \<open>NewSnapshot\<close> makes it, with the ID \<open>1f0e9a3c\<close>.\<close>

definition exSnapshot :: Snapshot where
  "exSnapshot =
     fst (NewSnapshot 1478010203000000000 (Inr ''1f0e9a3c-58a1-4c5b-9d3e-0b7f2a6c4e11'')
            ''nightly'')"

text \<open>
  A pipeline over a fixed file system: \<open>found\<close> is what the traversal yields for a
  path, \<open>chunks\<close> what the chunker yields for a file. Paths are related by \<open>Rel\<close>,
  the special paths are those under \<open>/dev/\<close>, and the chunk index is the list of
  the back-references added to it.
\<close>

definition exPipeline ::
  "(string \<Rightarrow> ArchiveResult list) \<Rightarrow> (string \<Rightarrow> error + ChunkResult list)
     \<Rightarrow> ((string \<times> string) list) pipeline" where
  "exPipeline found chunks =
     \<lparr>findFiles = (\<lambda>path excludes. found path),
      filepath_Rel = Rel,
      isSpecialPath = (\<lambda>path. HasPrefix path ''/dev/''),
      chunkFile = (\<lambda>path compress encrypt pw dParts parityParts. chunks path),
      ChunkIndex_AddArchive = (\<lambda>index archive ident. index @ [(ident, Archive_Path archive)]),
      uint_float64 = (\<lambda>d. d)\<rparr>"

definition exArchive :: "string \<Rightarrow> ArchiveType \<Rightarrow> Archive" where
  "exArchive path type =
     \<lparr>Archive_Path = path, Archive_Type = type, Archive_Size = 3, Archive_StorageSize = 0,
      Archive_Encrypted = 0, Archive_Compressed = 0, Archive_Chunks = []\<rparr>"

definition exChunk :: Chunk where
  "exChunk =
     \<lparr>Chunk_ShaSum = ''ab'', Chunk_Num = 0, Chunk_DataParts = 1, Chunk_ParityParts = 0,
      Chunk_OriginalSize = 3, Chunk_Data = [[1, 2, 3]]\<rparr>"

definition exState :: "((string \<times> string) list, memStore) pstate" where
  "exState =
     \<lparr>st_snapshot = exSnapshot, st_chunkIndex = [], st_store = exStore, st_dataParts = 1,
      st_progress = []\<rparr>"

section \<open>Properties of the backend\<close>

subsection \<open>The in-memory client is truthful\<close>

lemma mem_statExact: "statExact memApi memView"
  by (simp add: statExact_def memApi_def memView_def blobExists_def split: option.splits)

lemma mem_putStores: "putStores memApi memView"
  by (auto simp: putStores_def memApi_def memView_def split: option.splits)

lemma mem_getReads: "getReads memApi memView"
  by (simp add: getReads_def memApi_def memView_def)

lemma mem_bucketsExact: "bucketsExact memApi memView"
  by (simp add: bucketsExact_def memApi_def memView_def)

lemma mem_makeCreates: "makeCreates memApi memView"
  by (simp add: makeCreates_def memApi_def memView_def)

lemma memBackend_client: "client memBackend = Some False"
  by (simp add: memBackend_def)

subsection \<open>StoreChunk\<close>

lemma StoreChunk_present:
  assumes "statExact api view" "client backend = Some cl"
    "blobExists view st (chunkBucket backend) (chunkFileName h p t)"
  shows "StoreChunk api backend st h p t data = ((0, None), st)"
proof -
  have "minio_StatObject api (Some cl) st (chunkBucket backend) (chunkFileName h p t) = None"
    using assms(1,3) by (simp add: statExact_def)
  then show ?thesis using assms(2) by (simp add: StoreChunk_def)
qed

lemma StoreChunk_absent:
  assumes "statExact api view" "client backend = Some cl"
    "\<not> blobExists view st (chunkBucket backend) (chunkFileName h p t)"
  shows "StoreChunk api backend st h p t data =
      minio_PutObject api (Some cl) st (chunkBucket backend) (chunkFileName h p t) data ''application/octet-stream''"
proof -
  have "minio_StatObject api (Some cl) st (chunkBucket backend) (chunkFileName h p t) \<noteq> None"
    using assms(1,3) by (simp add: statExact_def)
  then show ?thesis using assms(2) by (auto simp add: StoreChunk_def split: prod.splits)
qed

lemma put_blob:
  assumes "putStores api view"
    "minio_PutObject api (Some cl) st bucket name data ct = ((i, None), st')"
  shows "i = of_nat (length data) \<and>
     (\<exists>objs. view st' bucket = Some objs \<and> objs name = Some data)"
proof -
  from assms obtain objs where "i = of_nat (length data)" "view st bucket = Some objs"
    "view st' = (view st)(bucket \<mapsto> objs(name \<mapsto> data))"
    unfolding putStores_def by blast
  then show ?thesis by simp
qed

text \<open>
  C5. With a client whose \<open>StatObject\<close> succeeds exactly on the blobs that exist and
  whose successful \<open>PutObject\<close> stores what it was given: when the blob named
  \<open>hash.part_total\<close> exists in the chunk bucket, \<open>StoreChunk\<close> returns size 0 and no
  error and leaves the store untouched; when it does not exist, \<open>StoreChunk\<close> is the
  \<open>PutObject\<close> of the payload under that name, and if that reports no error the
  returned size is the payload's length, the blob holds the payload, and storing the
  same shard again (with any payload) returns 0 and changes nothing.
\<close>

theorem StoreChunk_idempotent:
  assumes "statExact api view" and "putStores api view" and "client backend = Some cl"
  shows
    "(blobExists view st (chunkBucket backend) (chunkFileName shasum part totalParts) \<longrightarrow>
        StoreChunk api backend st shasum part totalParts data = ((0, None), st)) \<and>
     (\<not> blobExists view st (chunkBucket backend) (chunkFileName shasum part totalParts) \<longrightarrow>
        StoreChunk api backend st shasum part totalParts data =
          minio_PutObject api (client backend) st (chunkBucket backend)
            (chunkFileName shasum part totalParts) data ''application/octet-stream'' \<and>
        (\<forall>n st'. StoreChunk api backend st shasum part totalParts data = ((n, None), st') \<longrightarrow>
           n = of_nat (length data) \<and>
           (\<exists>objs. view st' (chunkBucket backend) = Some objs \<and>
                   objs (chunkFileName shasum part totalParts) = Some data) \<and>
           (\<forall>data'. StoreChunk api backend st' shasum part totalParts data' = ((0, None), st'))))"
proof (intro conjI impI allI)
  assume "blobExists view st (chunkBucket backend) (chunkFileName shasum part totalParts)"
  then show "StoreChunk api backend st shasum part totalParts data = ((0, None), st)"
    using assms by (rule_tac StoreChunk_present)
next
  assume a: "\<not> blobExists view st (chunkBucket backend) (chunkFileName shasum part totalParts)"
  show eq: "StoreChunk api backend st shasum part totalParts data =
          minio_PutObject api (client backend) st (chunkBucket backend)
            (chunkFileName shasum part totalParts) data ''application/octet-stream''"
    using StoreChunk_absent [OF assms(1,3) a] assms(3) by simp
  fix n st'
  assume r: "StoreChunk api backend st shasum part totalParts data = ((n, None), st')"
  have p: "minio_PutObject api (Some cl) st (chunkBucket backend)
            (chunkFileName shasum part totalParts) data ''application/octet-stream'' = ((n, None), st')"
    using eq r assms(3) by simp
  from put_blob [OF assms(2) p]
  show "n = of_nat (length data)"
    and ex: "\<exists>objs. view st' (chunkBucket backend) = Some objs \<and>
                   objs (chunkFileName shasum part totalParts) = Some data"
    by simp_all
  fix data'
  from ex have "blobExists view st' (chunkBucket backend) (chunkFileName shasum part totalParts)"
    by (auto simp: blobExists_def)
  then show "StoreChunk api backend st' shasum part totalParts data' = ((0, None), st')"
    using StoreChunk_present [OF assms(1,3)] by simp
qed

theorem StoreChunk_idempotent_witness:
  "blobExists memView [''b-chunks'' \<mapsto> [''ab.0_3'' \<mapsto> [7]]] (chunkBucket memBackend)
     (chunkFileName ''ab'' 0 3) \<and>
   StoreChunk memApi memBackend [''b-chunks'' \<mapsto> [''ab.0_3'' \<mapsto> [7]]] ''ab'' 0 3 [1, 2] =
     ((0, None), [''b-chunks'' \<mapsto> [''ab.0_3'' \<mapsto> [7]]]) \<and>
   \<not> blobExists memView [''b-chunks'' \<mapsto> Map.empty] (chunkBucket memBackend)
     (chunkFileName ''ab'' 0 3) \<and>
   StoreChunk memApi memBackend [''b-chunks'' \<mapsto> Map.empty] ''ab'' 0 3 [1, 2] =
     minio_PutObject memApi (client memBackend) [''b-chunks'' \<mapsto> Map.empty] (chunkBucket memBackend)
       (chunkFileName ''ab'' 0 3) [1, 2] ''application/octet-stream''"
proof -
  have n: "chunkFileName ''ab'' 0 3 = ''ab.0_3''"
    by (simp add: chunkFileName_def FormatUint10_def decimal.simps digit_def)
  have p: "blobExists memView [''b-chunks'' \<mapsto> [''ab.0_3'' \<mapsto> [7]]] (chunkBucket memBackend)
     (chunkFileName ''ab'' 0 3)"
    by (simp add: n blobExists_def memView_def memBackend_def)
  have a: "\<not> blobExists memView [''b-chunks'' \<mapsto> Map.empty] (chunkBucket memBackend)
     (chunkFileName ''ab'' 0 3)"
    by (simp add: n blobExists_def memView_def memBackend_def)
  note t = StoreChunk_idempotent [OF mem_statExact mem_putStores memBackend_client]
  from p a t [THEN conjunct1, rule_format, OF p] t [THEN conjunct2, rule_format, OF a, THEN conjunct1]
  show ?thesis by (intro conjI)
qed

subsection \<open>DeleteChunk\<close>

text \<open>
  C9. \<open>DeleteChunk\<close> answers \<open>ErrDeleteChunkFailed\<close> for every hash, shard index and
  shard count, whatever the client and the store are, and leaves the store as it was:
  it never calls the client, so no blob is deleted through this backend.
\<close>

theorem DeleteChunk_always_fails:
  "DeleteChunk api backend st shasum part totalParts = (Some ErrDeleteChunkFailed, st)"
  by (simp add: DeleteChunk_def)

subsection \<open>InitRepository\<close>

lemma BucketExists_view:
  "bucketsExact api view \<Longrightarrow> minio_BucketExists api (Some cl) st b = Inr (view st b \<noteq> None)"
  by (simp add: bucketsExact_def)

lemma MakeBucket_view:
  assumes "makeCreates api view" "view st b = None"
  shows "\<exists>st'. minio_MakeBucket api (Some cl) st b loc = (None, st') \<and>
     view st' = (view st)(b \<mapsto> Map.empty)"
  using assms unfolding makeCreates_def by simp

lemma InitRepository_chunk_exists:
  assumes "bucketsExact api view" "client backend = Some cl"
    "view st (chunkBucket backend) \<noteq> None"
  shows "InitRepository api backend st = (Some ErrRepositoryExists, st)"
  using assms by (simp add: InitRepository_def BucketExists_view)

lemma InitRepository_snapshot_exists:
  assumes "bucketsExact api view" "client backend = Some cl"
    "view st (chunkBucket backend) = None"
    "minio_MakeBucket api (Some cl) st (chunkBucket backend) (region backend) = (None, st1)"
    "view st1 (snapshotBucket backend) \<noteq> None"
  shows "InitRepository api backend st = (Some ErrRepositoryExists, st1)"
  using assms by (simp add: InitRepository_def BucketExists_view)

lemma InitRepository_repository_exists:
  assumes "bucketsExact api view" "client backend = Some cl"
    "view st (chunkBucket backend) = None"
    "minio_MakeBucket api (Some cl) st (chunkBucket backend) (region backend) = (None, st1)"
    "view st1 (snapshotBucket backend) = None"
    "minio_MakeBucket api (Some cl) st1 (snapshotBucket backend) (region backend) = (None, st2)"
    "view st2 (repositoryBucket backend) \<noteq> None"
  shows "InitRepository api backend st = (Some ErrRepositoryExists, st2)"
  using assms by (simp add: InitRepository_def BucketExists_view)

lemma InitRepository_created:
  assumes "bucketsExact api view" "client backend = Some cl"
    "view st (chunkBucket backend) = None"
    "minio_MakeBucket api (Some cl) st (chunkBucket backend) (region backend) = (None, st1)"
    "view st1 (snapshotBucket backend) = None"
    "minio_MakeBucket api (Some cl) st1 (snapshotBucket backend) (region backend) = (None, st2)"
    "view st2 (repositoryBucket backend) = None"
    "minio_MakeBucket api (Some cl) st2 (repositoryBucket backend) (region backend) = (None, st3)"
  shows "InitRepository api backend st = (None, st3)"
  using assms by (simp add: InitRepository_def BucketExists_view)

text \<open>
  C6. With a client that reports bucket existence truthfully and creates a bucket that
  does not exist: if the chunk, snapshot or repository bucket exists beforehand,
  \<open>InitRepository\<close> fails with \<open>ErrRepositoryExists\<close>; if it succeeds, none of the
  three existed beforehand and all three exist afterwards; and it does succeed when
  none exists and the three names differ.
\<close>

theorem InitRepository_exists:
  assumes be: "bucketsExact api view" and mc: "makeCreates api view"
    and cl: "client backend = Some cl"
  shows
    "(view st (chunkBucket backend) \<noteq> None \<or> view st (snapshotBucket backend) \<noteq> None \<or>
      view st (repositoryBucket backend) \<noteq> None \<longrightarrow>
        fst (InitRepository api backend st) = Some ErrRepositoryExists) \<and>
     (fst (InitRepository api backend st) = None \<longrightarrow>
        view st (chunkBucket backend) = None \<and> view st (snapshotBucket backend) = None \<and>
        view st (repositoryBucket backend) = None \<and>
        view (snd (InitRepository api backend st)) (chunkBucket backend) \<noteq> None \<and>
        view (snd (InitRepository api backend st)) (snapshotBucket backend) \<noteq> None \<and>
        view (snd (InitRepository api backend st)) (repositoryBucket backend) \<noteq> None) \<and>
     (view st (chunkBucket backend) = None \<and> view st (snapshotBucket backend) = None \<and>
      view st (repositoryBucket backend) = None \<and>
      distinct [chunkBucket backend, snapshotBucket backend, repositoryBucket backend] \<longrightarrow>
        fst (InitRepository api backend st) = None)"
proof (cases "view st (chunkBucket backend) = None")
  case False
  then have "InitRepository api backend st = (Some ErrRepositoryExists, st)"
    by (rule InitRepository_chunk_exists [OF be cl])
  with False show ?thesis by simp
next
  case c: True
  from MakeBucket_view [OF mc c] obtain st1 where
      m1: "minio_MakeBucket api (Some cl) st (chunkBucket backend) (region backend) = (None, st1)"
    and v1: "view st1 = (view st)(chunkBucket backend \<mapsto> Map.empty)"
    by blast
  show ?thesis
  proof (cases "view st1 (snapshotBucket backend) = None")
    case False
    then have r: "InitRepository api backend st = (Some ErrRepositoryExists, st1)"
      by (rule InitRepository_snapshot_exists [OF be cl c m1])
    from False have "snapshotBucket backend = chunkBucket backend \<or>
        view st (snapshotBucket backend) \<noteq> None"
      by (simp add: v1 split: if_splits)
    with r show ?thesis by auto
  next
    case s: True
    from s have s': "snapshotBucket backend \<noteq> chunkBucket backend"
      and s'': "view st (snapshotBucket backend) = None"
      by (simp_all add: v1 split: if_splits)
    from MakeBucket_view [OF mc s] obtain st2 where
        m2: "minio_MakeBucket api (Some cl) st1 (snapshotBucket backend) (region backend) = (None, st2)"
      and v2: "view st2 = (view st1)(snapshotBucket backend \<mapsto> Map.empty)"
      by blast
    show ?thesis
    proof (cases "view st2 (repositoryBucket backend) = None")
      case False
      then have r: "InitRepository api backend st = (Some ErrRepositoryExists, st2)"
        by (rule InitRepository_repository_exists [OF be cl c m1 s m2])
      from False have "repositoryBucket backend = chunkBucket backend \<or>
          repositoryBucket backend = snapshotBucket backend \<or>
          view st (repositoryBucket backend) \<noteq> None"
        by (simp add: v1 v2 split: if_splits)
      with r show ?thesis by auto
    next
      case r: True
      from r have r': "repositoryBucket backend \<noteq> chunkBucket backend"
        "repositoryBucket backend \<noteq> snapshotBucket backend"
        and r'': "view st (repositoryBucket backend) = None"
        by (simp_all add: v1 v2 split: if_splits)
      from MakeBucket_view [OF mc r] obtain st3 where
          m3: "minio_MakeBucket api (Some cl) st2 (repositoryBucket backend) (region backend) = (None, st3)"
        and v3: "view st3 = (view st2)(repositoryBucket backend \<mapsto> Map.empty)"
        by blast
      have ok: "InitRepository api backend st = (None, st3)"
        by (rule InitRepository_created [OF be cl c m1 s m2 r m3])
      have "view st3 (chunkBucket backend) \<noteq> None" "view st3 (snapshotBucket backend) \<noteq> None"
        "view st3 (repositoryBucket backend) \<noteq> None"
        by (simp_all add: v1 v2 v3)
      with ok c s'' r'' show ?thesis by simp
    qed
  qed
qed

theorem InitRepository_exists_witness:
  "fst (InitRepository memApi memBackend [''b-snapshots'' \<mapsto> Map.empty]) = Some ErrRepositoryExists \<and>
   fst (InitRepository memApi memBackend Map.empty) = None \<and>
   snd (InitRepository memApi memBackend Map.empty) ''b-chunks'' \<noteq> None"
  using InitRepository_exists [OF mem_bucketsExact mem_makeCreates, of memBackend False "[''b-snapshots'' \<mapsto> Map.empty]"]
    InitRepository_exists [OF mem_bucketsExact mem_makeCreates, of memBackend False Map.empty]
  by (simp add: memBackend_def memView_def)

subsection \<open>NewBackend\<close>

text \<open>
  C10. A URL whose scheme is neither \<open>s3\<close> nor \<open>s3s\<close> makes \<open>NewBackend\<close> panic
  with "Invalid s3 url scheme" rather than return an error. With scheme \<open>s3\<close> it
  returns, and the client is built without SSL (the result is the same when the
  client constructor is handed \<open>False\<close> whatever it is asked); with \<open>s3s\<close> it
  returns, and the client is built with SSL.
\<close>

theorem NewBackend_scheme:
  "(URL_Scheme URL \<noteq> ''s3'' \<and> URL_Scheme URL \<noteq> ''s3s'' \<longrightarrow> NewBackend api URL = Panic ''Invalid s3 url scheme'') \<and>
   (URL_Scheme URL = ''s3'' \<longrightarrow>
      (\<exists>r. NewBackend api URL = Return r) \<and>
      NewBackend api URL = NewBackend (api\<lparr>minio_New := \<lambda>h u p ssl. minio_New api h u p False\<rparr>) URL) \<and>
   (URL_Scheme URL = ''s3s'' \<longrightarrow>
      (\<exists>r. NewBackend api URL = Return r) \<and>
      NewBackend api URL = NewBackend (api\<lparr>minio_New := \<lambda>h u p ssl. minio_New api h u p True\<rparr>) URL)"
proof (intro conjI impI)
  assume "URL_Scheme URL \<noteq> ''s3'' \<and> URL_Scheme URL \<noteq> ''s3s''"
  then show "NewBackend api URL = Panic ''Invalid s3 url scheme''"
    by (simp add: NewBackend_def)
next
  assume s: "URL_Scheme URL = ''s3''"
  show "\<exists>r. NewBackend api URL = Return r"
    unfolding NewBackend_def Let_def using s
    by (simp split: prod.split sum.split)
  show "NewBackend api URL = NewBackend (api\<lparr>minio_New := \<lambda>h u p ssl. minio_New api h u p False\<rparr>) URL"
    unfolding NewBackend_def Let_def using s by (simp split: prod.split)
next
  assume s: "URL_Scheme URL = ''s3s''"
  show "\<exists>r. NewBackend api URL = Return r"
    unfolding NewBackend_def Let_def using s
    by (simp split: prod.split sum.split)
  show "NewBackend api URL = NewBackend (api\<lparr>minio_New := \<lambda>h u p ssl. minio_New api h u p True\<rparr>) URL"
    unfolding NewBackend_def Let_def using s by (simp split: prod.split)
qed

theorem NewBackend_scheme_witness:
  "NewBackend memApi (url memBackend\<lparr>URL_Scheme := ''http''\<rparr>) = Panic ''Invalid s3 url scheme'' \<and>
   (\<exists>r. NewBackend memApi (url memBackend) = Return r) \<and>
   (\<exists>r. NewBackend memApi (url memBackend\<lparr>URL_Scheme := ''s3s''\<rparr>) = Return r)"
proof (intro conjI)
  have "URL_Scheme (url memBackend\<lparr>URL_Scheme := ''http''\<rparr>) \<noteq> ''s3'' \<and>
        URL_Scheme (url memBackend\<lparr>URL_Scheme := ''http''\<rparr>) \<noteq> ''s3s''"
    by simp
  then show "NewBackend memApi (url memBackend\<lparr>URL_Scheme := ''http''\<rparr>) = Panic ''Invalid s3 url scheme''"
    by (rule NewBackend_scheme [THEN conjunct1, rule_format])
  have "URL_Scheme (url memBackend) = ''s3''"
    by (simp add: memBackend_def)
  then show "\<exists>r. NewBackend memApi (url memBackend) = Return r"
    by (rule NewBackend_scheme [THEN conjunct2, THEN conjunct1, rule_format, THEN conjunct1])
  have "URL_Scheme (url memBackend\<lparr>URL_Scheme := ''s3s''\<rparr>) = ''s3s''"
    by simp
  then show "\<exists>r. NewBackend memApi (url memBackend\<lparr>URL_Scheme := ''s3s''\<rparr>) = Return r"
    by (rule NewBackend_scheme [THEN conjunct2, THEN conjunct2, rule_format, THEN conjunct1])
qed
section \<open>Properties of snapshot persistence\<close>

subsection \<open>The example instances satisfy what is assumed\<close>

lemma char_of_byte: "char_of (unat (byte c)) = c"
  by (simp add: byte_def unat_of_nat)

lemma byte_inj: "byte c = byte d \<Longrightarrow> c = d"
  by (metis char_of_byte)

lemma passwordTag_prefix:
  "take (length (passwordTag q)) (passwordTag p @ b) = passwordTag q \<Longrightarrow> p = q"
proof (induction q arbitrary: p)
  case Nil
  then show ?case by (cases p) (simp_all add: passwordTag_def)
next
  case (Cons d q)
  show ?case
  proof (cases p)
    case Nil
    with Cons.prems show ?thesis by (simp add: passwordTag_def)
  next
    case (Cons c p')
    with Cons.prems have "byte c = byte d"
      and "take (length (passwordTag q)) (passwordTag p' @ b) = passwordTag q"
      by (simp_all add: passwordTag_def)
    with Cons.IH [of p'] byte_inj Cons show ?thesis by simp
  qed
qed

lemma ex_authenticated: "authenticated exCodecs"
  unfolding authenticated_def exCodecs_def
  using passwordTag_prefix by auto

lemma s3_keepsSnapshots:
  assumes "putStores api view" "getReads api view" "client backend = Some cl"
  shows "keepsSnapshots
     \<lparr>Backend_StoreChunk = f, Backend_LoadSnapshot = LoadSnapshot api backend,
      Backend_SaveSnapshot = SaveSnapshot api backend\<rparr>"
proof -
  have "LoadSnapshot api backend st' ident = (b, None)"
    if "SaveSnapshot api backend st ident b = (None, st')" for st ident b st'
  proof -
    from that obtain i where
      p: "minio_PutObject api (Some cl) st (snapshotBucket backend) ident b
            ''application/octet-stream'' = ((i, None), st')"
      using assms(3) by (auto simp: SaveSnapshot_def split: prod.splits)
    from put_blob [OF assms(1) p] obtain objs where
      "view st' (snapshotBucket backend) = Some objs" "objs ident = Some b"
      by blast
    with assms(2) have "minio_GetObject api (Some cl) st' (snapshotBucket backend) ident = Inr (b, None)"
      unfolding getReads_def by blast
    then show ?thesis using assms(3) by (simp add: LoadSnapshot_def)
  qed
  then show ?thesis by (simp add: keepsSnapshots_def)
qed

lemma ex_keepsSnapshots: "keepsSnapshots exBackend"
  unfolding exBackend_def
  by (rule s3_keepsSnapshots [OF mem_putStores mem_getReads memBackend_client])

lemma ex_Save_ok: "fst (Save exCodecs buf exSnapshot (exRepository v ''pw'') exStore) = None"
  by (simp add: Save_def exCodecs_def exRepository_def exBackend_def SaveSnapshot_def memApi_def
      memBackend_def exStore_def Let_def)

lemma ex_Backend: "Backend (exRepository v pw) = exBackend"
  by (simp add: exRepository_def)

subsection \<open>Save and openSnapshot against the specified pipelines\<close>

text \<open>
  \<open>Save\<close> serialises the snapshot, and then stores the bytes of the buffer as the
  specification stores the serialised bytes, with the codec of the version;
  \<open>openSnapshot\<close> is the specified inverse pipeline with that codec.
\<close>

lemma Save_spec:
  "Save lib buf s r st =
     (case json_Marshal lib s of
        Inl err \<Rightarrow> (Some err, st)
      | Inr plain \<Rightarrow> spec_Store lib (spec_metadataCodec (Version r)) buf (ID s) r st)"
  by (simp add: Save_def spec_Store_def spec_metadataCodec_def Let_def
      CompressionNone_def CompressionGZip_def CompressionLZMA_def split: sum.split)

lemma openSnapshot_spec:
  "openSnapshot lib ident r st = spec_Load lib (spec_metadataCodec (Version r)) ident r st"
  by (simp add: openSnapshot_def spec_Load_def spec_metadataCodec_def Let_def zeroSnapshot_def
      CompressionNone_def CompressionGZip_def CompressionLZMA_def
      split: prod.split option.split sum.split)

lemma Save_stored:
  assumes "Save lib buf s r st = (None, st')"
  obtains packed sealed where
    "(if spec_metadataCodec (Version r) = CompressionNone then Inr buf
      else Compress lib buf (spec_metadataCodec (Version r))) = Inr packed"
    "Encrypt lib packed (Password r) = Inr sealed"
    "Backend_SaveSnapshot (Backend r) st (ID s) sealed = (None, st')"
  using assms unfolding Save_spec spec_Store_def
  by (auto split: sum.splits)

text \<open>
  C2. The codec is chosen by the repository version alone and alike in \<open>Save\<close> and
  \<open>openSnapshot\<close>: whatever \<open>Save\<close> hands on after serialising is stored with, and
  what \<open>openSnapshot\<close> loads is unpacked with, GZip for version 1, LZMA for version
  2, and no compression otherwise; for such another version the results do not depend
  on the compression functions at all, which are not called.
\<close>

theorem metadata_compression_by_version:
  "Save lib buf s r st =
     (case json_Marshal lib s of
        Inl err \<Rightarrow> (Some err, st)
      | Inr plain \<Rightarrow> spec_Store lib (spec_metadataCodec (Version r)) buf (ID s) r st) \<and>
   openSnapshot lib ident r st = spec_Load lib (spec_metadataCodec (Version r)) ident r st \<and>
   (Version r = 1 \<longrightarrow> spec_metadataCodec (Version r) = CompressionGZip) \<and>
   (Version r = 2 \<longrightarrow> spec_metadataCodec (Version r) = CompressionLZMA) \<and>
   (Version r \<noteq> 1 \<and> Version r \<noteq> 2 \<longrightarrow>
      spec_metadataCodec (Version r) = CompressionNone \<and>
      Save lib buf s r st = Save (lib\<lparr>Compress := other\<rparr>) buf s r st \<and>
      openSnapshot lib ident r st = openSnapshot (lib\<lparr>Uncompress := other'\<rparr>) ident r st)"
proof (intro conjI impI)
  show "Save lib buf s r st =
     (case json_Marshal lib s of
        Inl err \<Rightarrow> (Some err, st)
      | Inr plain \<Rightarrow> spec_Store lib (spec_metadataCodec (Version r)) buf (ID s) r st)"
    by (rule Save_spec)
  show "openSnapshot lib ident r st = spec_Load lib (spec_metadataCodec (Version r)) ident r st"
    by (rule openSnapshot_spec)
  show "spec_metadataCodec (Version r) = CompressionGZip" if "Version r = 1"
    using that by (simp add: spec_metadataCodec_def)
  show "spec_metadataCodec (Version r) = CompressionLZMA" if "Version r = 2"
    using that by (simp add: spec_metadataCodec_def)
next
  assume v: "Version r \<noteq> 1 \<and> Version r \<noteq> 2"
  then show "spec_metadataCodec (Version r) = CompressionNone"
    by (simp add: spec_metadataCodec_def)
  from v show "Save lib buf s r st = Save (lib\<lparr>Compress := other\<rparr>) buf s r st"
    by (simp add: Save_def split: sum.split)
  from v show "openSnapshot lib ident r st = openSnapshot (lib\<lparr>Uncompress := other'\<rparr>) ident r st"
    by (simp add: openSnapshot_def split: prod.split option.split sum.split)
qed

theorem metadata_compression_by_version_witness:
  "Version (exRepository 1 ''pw'') = 1 \<and>
   spec_metadataCodec (Version (exRepository 1 ''pw'')) = CompressionGZip \<and>
   Version (exRepository 2 ''pw'') = 2 \<and>
   spec_metadataCodec (Version (exRepository 2 ''pw'')) = CompressionLZMA \<and>
   (Version (exRepository 3 ''pw'') \<noteq> 1 \<and> Version (exRepository 3 ''pw'') \<noteq> 2) \<and>
   spec_metadataCodec (Version (exRepository 3 ''pw'')) = CompressionNone"
proof -
  note t = metadata_compression_by_version [THEN conjunct2, THEN conjunct2]
  have v1: "Version (exRepository 1 ''pw'') = 1"
    and v2: "Version (exRepository 2 ''pw'') = 2"
    and v3: "Version (exRepository 3 ''pw'') \<noteq> 1 \<and> Version (exRepository 3 ''pw'') \<noteq> 2"
    by (simp_all add: exRepository_def)
  from v1 v2 v3
    t [THEN conjunct1, rule_format, OF v1]
    t [THEN conjunct2, THEN conjunct1, rule_format, OF v2]
    t [THEN conjunct2, THEN conjunct2, rule_format, OF v3, THEN conjunct1]
  show ?thesis by blast
qed

subsection \<open>Round trip\<close>

text \<open>
  What \<open>Save\<close> writes does not depend on the snapshot beyond its id: two snapshots
  with the same id that both serialise are saved alike.
\<close>

lemma Save_same_blob:
  assumes "json_Marshal lib s = Inr b" and "json_Marshal lib s' = Inr b'" and "ID s' = ID s"
  shows "Save lib buf s r st = Save lib buf s' r st"
  using assms by (simp add: Save_spec)

text \<open>
  Were the buffer to hold the JSON of the snapshot, the pipelines would be inverse to
  each other.
\<close>

lemma Save_openSnapshot_of_buffered_json:
  assumes inv: "codecsInvert lib" and json: "jsonInverts lib s"
    and keeps: "keepsSnapshots (Backend r)"
    and buffered: "json_Marshal lib s = Inr buf"
    and saved: "Save lib buf s r st = (None, st')"
  shows "openSnapshot lib (ID s) r st' = (s, None)"
proof -
  let ?codec = "spec_metadataCodec (Version r)"
  from saved obtain packed sealed where
      c: "(if ?codec = CompressionNone then Inr buf else Compress lib buf ?codec) = Inr packed"
    and e: "Encrypt lib packed (Password r) = Inr sealed"
    and w: "Backend_SaveSnapshot (Backend r) st (ID s) sealed = (None, st')"
    by (rule Save_stored)
  from keeps w have l: "Backend_LoadSnapshot (Backend r) st' (ID s) = (sealed, None)"
    by (simp add: keepsSnapshots_def)
  from inv e have d: "Decrypt lib sealed (Password r) = Inr packed"
    by (simp add: codecsInvert_def)
  from inv c have u: "(if ?codec = CompressionNone then Inr packed
      else Uncompress lib packed ?codec) = Inr buf"
    by (auto simp: codecsInvert_def split: if_splits)
  from json buffered have j: "json_Unmarshal lib buf zeroSnapshot = (s, None)"
    by (simp add: jsonInverts_def)
  have "spec_Load lib ?codec (ID s) r st' = (s, None)"
    unfolding spec_Load_def by (simp only: l d u j prod.case option.case sum.case)
  then show ?thesis by (simp add: openSnapshot_spec)
qed

text \<open>
  C1. The round trip does not hold of \<open>Save\<close> as it is written: line 224 replaces
  the serialised snapshot by the bytes of \<open>buf\<close>. Saving the snapshot \<open>1f0e9a3c\<close>
  while the buffer holds the JSON of a snapshot \<open>deadbeef\<close> succeeds, and opening
  \<open>1f0e9a3c\<close> afterwards returns the snapshot \<open>deadbeef\<close> without error, not the
  one saved; and a snapshot that differs in its description is saved as the same
  bytes.
\<close>

theorem Save_stores_buffer:
  "fst (Save exCodecs (map byte ''deadbeef'') exSnapshot (exRepository 1 ''pw'') exStore) = None \<and>
   openSnapshot exCodecs (ID exSnapshot) (exRepository 1 ''pw'')
     (snd (Save exCodecs (map byte ''deadbeef'') exSnapshot (exRepository 1 ''pw'') exStore)) =
       (zeroSnapshot\<lparr>ID := ''deadbeef''\<rparr>, None) \<and>
   openSnapshot exCodecs (ID exSnapshot) (exRepository 1 ''pw'')
     (snd (Save exCodecs (map byte ''deadbeef'') exSnapshot (exRepository 1 ''pw'') exStore)) \<noteq>
       (exSnapshot, None) \<and>
   ID exSnapshot = ''1f0e9a3c'' \<and> Description exSnapshot = ''nightly'' \<and>
   Save exCodecs (map byte ''deadbeef'') exSnapshot (exRepository 1 ''pw'') exStore =
     Save exCodecs (map byte ''deadbeef'') (exSnapshot\<lparr>Description := ''weekly''\<rparr>)
       (exRepository 1 ''pw'') exStore"
proof (intro conjI)
  show "fst (Save exCodecs (map byte ''deadbeef'') exSnapshot (exRepository 1 ''pw'') exStore) = None"
    by (rule ex_Save_ok)
  show opened: "openSnapshot exCodecs (ID exSnapshot) (exRepository 1 ''pw'')
     (snd (Save exCodecs (map byte ''deadbeef'') exSnapshot (exRepository 1 ''pw'') exStore)) =
       (zeroSnapshot\<lparr>ID := ''deadbeef''\<rparr>, None)"
    by (simp add: openSnapshot_def Save_def exCodecs_def exRepository_def exBackend_def
        SaveSnapshot_def LoadSnapshot_def memApi_def memBackend_def exStore_def Let_def
        CompressionGZip_def CompressionNone_def passwordTag_def exSnapshot_def NewSnapshot_def
        char_of_byte)
  show "openSnapshot exCodecs (ID exSnapshot) (exRepository 1 ''pw'')
     (snd (Save exCodecs (map byte ''deadbeef'') exSnapshot (exRepository 1 ''pw'') exStore)) \<noteq>
       (exSnapshot, None)"
    unfolding opened by (simp add: exSnapshot_def NewSnapshot_def zeroSnapshot_def)
  show "ID exSnapshot = ''1f0e9a3c''" and "Description exSnapshot = ''nightly''"
    by (simp_all add: exSnapshot_def NewSnapshot_def)
  have "json_Marshal exCodecs exSnapshot = Inr (map byte (ID exSnapshot))"
    and "json_Marshal exCodecs (exSnapshot\<lparr>Description := ''weekly''\<rparr>) =
      Inr (map byte (ID exSnapshot))"
    by (simp_all add: exCodecs_def)
  then show "Save exCodecs (map byte ''deadbeef'') exSnapshot (exRepository 1 ''pw'') exStore =
     Save exCodecs (map byte ''deadbeef'') (exSnapshot\<lparr>Description := ''weekly''\<rparr>)
       (exRepository 1 ''pw'') exStore"
    by (rule Save_same_blob) simp
qed

subsection \<open>Password isolation\<close>

text \<open>
  C3. Let \<open>Decrypt\<close> reject, with the wrong-password error, every ciphertext made
  under another password, and let the backend hand back what it saved. If \<open>Save\<close> of
  \<open>s\<close> succeeds in a repository with password \<open>P1\<close>, then \<open>openSnapshot\<close> on the
  same repository with any password \<open>P2\<close> other than \<open>P1\<close> returns the error
  \<open>ErrWrongPassword\<close> together with the empty snapshot, nothing of \<open>s\<close> decoded.
\<close>

theorem wrong_password_rejected:
  assumes auth: "authenticated lib" and keeps: "keepsSnapshots (Backend r)"
    and saved: "Save lib buf s r st = (None, st')"
    and other: "P2 \<noteq> Password r"
  shows "openSnapshot lib (ID s) (r\<lparr>Password := P2\<rparr>) st' = (zeroSnapshot, Some ErrWrongPassword)"
proof -
  from saved obtain packed sealed where
      e: "Encrypt lib packed (Password r) = Inr sealed"
    and w: "Backend_SaveSnapshot (Backend r) st (ID s) sealed = (None, st')"
    by (rule Save_stored)
  from keeps w have l: "Backend_LoadSnapshot (Backend r) st' (ID s) = (sealed, None)"
    by (simp add: keepsSnapshots_def)
  from auth e other have d: "Decrypt lib sealed P2 = Inl ErrWrongPassword"
    unfolding authenticated_def by blast
  show ?thesis
    by (simp add: openSnapshot_def l d)
qed

theorem wrong_password_rejected_witness:
  "fst (Save exCodecs [] exSnapshot (exRepository 2 ''pw'') exStore) = None \<and>
   ''letmein'' \<noteq> Password (exRepository 2 ''pw'') \<and>
   openSnapshot exCodecs (ID exSnapshot) ((exRepository 2 ''pw'')\<lparr>Password := ''letmein''\<rparr>)
     (snd (Save exCodecs [] exSnapshot (exRepository 2 ''pw'') exStore)) =
       (zeroSnapshot, Some ErrWrongPassword)"
proof -
  have k: "keepsSnapshots (Backend (exRepository 2 ''pw''))"
    by (simp add: ex_Backend ex_keepsSnapshots)
  have s: "Save exCodecs [] exSnapshot (exRepository 2 ''pw'') exStore =
      (None, snd (Save exCodecs [] exSnapshot (exRepository 2 ''pw'') exStore))"
    using ex_Save_ok [of "[]" 2] by (simp add: prod_eq_iff)
  have p: "''letmein'' \<noteq> Password (exRepository 2 ''pw'')"
    by (simp add: exRepository_def)
  from ex_Save_ok [of "[]" 2] p wrong_password_rejected [OF ex_authenticated k s p]
  show ?thesis by (intro conjI)
qed
section \<open>Properties of the backup pipeline\<close>

subsection \<open>A file that vanished\<close>

subsection \<open>The channel is closed once, after the last event\<close>

lemma Add_chunks_trace:
  "Add_chunks backend err archive p s chunkchan = (returned, archive', s') \<Longrightarrow>
     \<exists>events. st_progress s' =
       st_progress s @ map Send events @ (if returned then [Close] else [])"
proof (induction chunkchan arbitrary: archive p s)
  case Nil
  then have "st_progress s' = st_progress s @ map Send [] @ (if returned then [Close] else [])"
    by auto
  then show ?case by blast
next
  case (Cons cd chunkchan)
  show ?case
  proof (cases cd)
    case (Inl e)
    with Cons.prems have "st_progress s' =
        st_progress s @ map Send [newProgressError err] @ (if returned then [Close] else [])"
      by auto
    then show ?thesis by blast
  next
    case (Inr chunk)
    obtain n e st' where r: "Backend_StoreChunk backend (st_store s) chunk = ((n, e), st')"
      by (metis prod.exhaust)
    show ?thesis
    proof (cases e)
      case (Some a)
      with Cons.prems Inr r have "st_progress s' =
          st_progress s @ map Send [newProgressError (Some a)] @
            (if returned then [Close] else [])"
        by auto
      then show ?thesis by blast
    next
      case None
      with Cons.prems Inr r obtain archive1 p1 s1 where
        step: "Add_chunks backend err archive1 p1 s1 chunkchan = (returned, archive', s')"
        and s1: "st_progress s1 = st_progress s @ [Send p1]"
        by (simp add: Let_def)
      from Cons.IH [OF step] obtain events where
        "st_progress s' = st_progress s1 @ map Send events @ (if returned then [Close] else [])"
        by blast
      with s1 have "st_progress s' =
          st_progress s @ map Send (p1 # events) @ (if returned then [Close] else [])"
        by simp
      then show ?thesis by blast
    qed
  qed
qed

lemma Add_results_trace:
  "\<exists>events. st_progress (Add_results env cwd repository compress encrypt parityParts s fwd) =
     st_progress s @ map Send events @ [Close]"
proof (induction fwd arbitrary: s)
  case Nil
  have "st_progress (Add_results env cwd repository compress encrypt parityParts s []) =
      st_progress s @ map Send [] @ [Close]"
    by simp
  then show ?case by blast
next
  case (Cons result fwd)
  let ?run = "Add_results env cwd repository compress encrypt parityParts"
  have final: ?case
    if "st_progress (?run s (result # fwd)) = st_progress s @ map Send sent @ [Close]"
    for sent
    using that by blast
  have later: ?case
    if "?run s (result # fwd) = ?run s' fwd" and "st_progress s' = st_progress s @ map Send sent"
    for s' sent
  proof -
    from Cons.IH [of s'] obtain events where
      "st_progress (?run s' fwd) = st_progress s' @ map Send events @ [Close]"
      by blast
    with that have "st_progress (?run s (result # fwd)) =
        st_progress s @ map Send (sent @ events) @ [Close]"
      by simp
    then show ?thesis by blast
  qed
  show ?case
  proof (cases result)
    case (Inl err)
    show ?thesis
      by (rule final [of "[newProgressError (Some err)]"]) (simp add: Inl)
  next
    case (Inr archive0)
    define key where "key = relativePath env cwd (Archive_Path archive0)"
    define archive where "archive = archive0\<lparr>Archive_Path := key\<rparr>"
    define p where "p = (newProgress archive)\<lparr>TotalStatistics := Stats (st_snapshot s)\<rparr>"
    define s1 where "s1 = s\<lparr>st_progress := st_progress s @ [Send p]\<rparr>"
    define s2 where "s2 = s1\<lparr>st_dataParts := maxDataParts env (st_dataParts s1)\<rparr>"
    show ?thesis
    proof (cases "isSpecialPath env key")
      case True
      show ?thesis
        by (rule later [of s "[]"]) (use True Inr in \<open>simp_all add: key_def\<close>)
    next
      case ns: False
      show ?thesis
      proof (cases "Archive_Type archive0 = File")
        case False
        show ?thesis
          by (rule later [of "s1\<lparr>st_snapshot := AddArchive (st_snapshot s1) archive,
                st_chunkIndex := ChunkIndex_AddArchive env (st_chunkIndex s1) archive
                  (ID (st_snapshot s1))\<rparr>" "[p]"])
            (use False ns Inr in \<open>simp_all add: key_def archive_def p_def s1_def Let_def\<close>)
      next
        case f: True
        show ?thesis
        proof (cases "chunkFile env key compress encrypt (Password repository)
            (st_dataParts s2) parityParts")
          case (Inl err)
          show ?thesis
          proof (cases "IsNotExist err")
            case True
            show ?thesis
              by (rule later [of s2 "[p]"])
                (use True Inl f ns Inr in
                  \<open>simp_all add: key_def archive_def p_def s1_def s2_def Let_def\<close>)
          next
            case False
            show ?thesis
              by (rule final [of "[p, newProgressError (Some err)]"])
                (use False Inl f ns Inr in
                  \<open>simp add: key_def archive_def p_def s1_def s2_def Let_def\<close>)
          qed
        next
          case c: (Inr chunkchan)
          obtain returned archive' s3 where
            r: "Add_chunks (Backend repository) None
                  (archive\<lparr>Archive_Encrypted := encrypt, Archive_Compressed := compress\<rparr>)
                  p s2 chunkchan = (returned, archive', s3)"
            by (metis prod.exhaust)
          from Add_chunks_trace [OF r] obtain events where
            t: "st_progress s3 =
                  st_progress s2 @ map Send events @ (if returned then [Close] else [])"
            by blast
          show ?thesis
          proof (cases returned)
            case True
            show ?thesis
              by (rule final [of "p # events"])
                (use True r c f ns Inr t in
                  \<open>simp add: key_def archive_def p_def s1_def s2_def Let_def\<close>)
          next
            case False
            show ?thesis
              by (rule later [of "s3\<lparr>st_snapshot := AddArchive (st_snapshot s3) archive',
                    st_chunkIndex := ChunkIndex_AddArchive env (st_chunkIndex s3) archive'
                      (ID (st_snapshot s3))\<rparr>" "p # events"])
                (use False r c f ns Inr t in
                  \<open>simp_all add: key_def archive_def p_def s1_def s2_def Let_def\<close>)
          qed
        qed
      qed
    qed
  qed
qed

subsection \<open>Entries that are not regular files\<close>

lemma foldl_AddArchive_same:
  "Stats (foldl AddArchive snap archives) = Stats snap \<and>
   ID (foldl AddArchive snap archives) = ID snap"
  by (induction archives arbitrary: snap) (simp_all add: AddArchive_def)

text \<open>
  A run over entries that are neither regular files nor special sends one event for
  each, archives and indexes each, and closes the channel.
\<close>

lemma Add_results_other_entries:
  assumes "\<forall>r \<in> set rest. Archive_Type r \<noteq> File \<and>
      \<not> isSpecialPath env (relativePath env cwd (Archive_Path r))"
  shows "Add_results env cwd repository compress encrypt parityParts s (map Inr rest) =
     s\<lparr>st_snapshot := foldl AddArchive (st_snapshot s) (map (relativeArchive env cwd) rest),
       st_chunkIndex :=
         foldl (\<lambda>index a. ChunkIndex_AddArchive env index a (ID (st_snapshot s)))
           (st_chunkIndex s) (map (relativeArchive env cwd) rest),
       st_progress := st_progress s @
         map (\<lambda>r. Send (startEvent (st_snapshot s) (relativeArchive env cwd r))) rest @
         [Close]\<rparr>"
  using assms
proof (induction rest arbitrary: s)
  case Nil
  then show ?case by simp
next
  case (Cons r rest)
  let ?a = "relativeArchive env cwd r"
  let ?s' = "s\<lparr>st_progress := st_progress s @ [Send (startEvent (st_snapshot s) ?a)],
      st_snapshot := AddArchive (st_snapshot s) ?a,
      st_chunkIndex := ChunkIndex_AddArchive env (st_chunkIndex s) ?a (ID (st_snapshot s))\<rparr>"
  from Cons.prems have step:
    "Add_results env cwd repository compress encrypt parityParts s (map Inr (r # rest)) =
       Add_results env cwd repository compress encrypt parityParts ?s' (map Inr rest)"
    by (simp add: Let_def relativeArchive_def startEvent_def)
  have same: "Stats (st_snapshot ?s') = Stats (st_snapshot s)"
    "ID (st_snapshot ?s') = ID (st_snapshot s)"
    by (simp_all add: AddArchive_def)
  from Cons.prems have "\<forall>r \<in> set rest. Archive_Type r \<noteq> File \<and>
      \<not> isSpecialPath env (relativePath env cwd (Archive_Path r))"
    by simp
  from Cons.IH [OF this, of ?s'] step show ?case
    by (simp add: startEvent_def AddArchive_def)
qed

text \<open>
  C7. Let a result be a regular file whose path is not special, and let \<open>chunkFile\<close>
  fail on it with an error on which \<open>os.IsNotExist\<close> holds. Then the only event sent
  for the file is its start event, which carries no error; the loop goes on with the
  remaining results from a state whose snapshot, chunk index and store are as before;
  the channel sees that event, then the events of the remaining results, then the
  close. When the remaining results are entries that are neither regular files nor
  special, the outcome is: one start event for the file and one for each remaining
  entry, the close, every remaining entry archived and indexed, the file neither.
\<close>

theorem Add_skips_vanished_file:
  assumes "\<not> isSpecialPath env (relativePath env cwd (Archive_Path archive))"
    and "Archive_Type archive = File"
    and "chunkFile env (relativePath env cwd (Archive_Path archive)) compress encrypt
           (Password repository) (maxDataParts env (st_dataParts s)) parityParts = Inl err"
    and "IsNotExist err"
  shows
    "Progress_Error (startEvent (st_snapshot s) (relativeArchive env cwd archive)) = None \<and>
     Add_results env cwd repository compress encrypt parityParts s (Inr archive # fwd) =
       Add_results env cwd repository compress encrypt parityParts
         (s\<lparr>st_progress := st_progress s @
              [Send (startEvent (st_snapshot s) (relativeArchive env cwd archive))],
            st_dataParts := maxDataParts env (st_dataParts s)\<rparr>) fwd \<and>
     (\<exists>events.
        st_progress
          (Add_results env cwd repository compress encrypt parityParts s (Inr archive # fwd)) =
        st_progress s @
          Send (startEvent (st_snapshot s) (relativeArchive env cwd archive)) #
          map Send events @ [Close]) \<and>
     ((\<forall>r \<in> set rest. Archive_Type r \<noteq> File \<and>
          \<not> isSpecialPath env (relativePath env cwd (Archive_Path r))) \<longrightarrow>
        Add_results env cwd repository compress encrypt parityParts s
          (Inr archive # map Inr rest) =
        s\<lparr>st_snapshot := foldl AddArchive (st_snapshot s) (map (relativeArchive env cwd) rest),
          st_chunkIndex :=
            foldl (\<lambda>index a. ChunkIndex_AddArchive env index a (ID (st_snapshot s)))
              (st_chunkIndex s) (map (relativeArchive env cwd) rest),
          st_dataParts := maxDataParts env (st_dataParts s),
          st_progress := st_progress s @
            map (\<lambda>r. Send (startEvent (st_snapshot s) (relativeArchive env cwd r)))
              (archive # rest) @
            [Close]\<rparr>)"
proof -
  let ?run = "Add_results env cwd repository compress encrypt parityParts"
  let ?p = "startEvent (st_snapshot s) (relativeArchive env cwd archive)"
  let ?s' = "s\<lparr>st_progress := st_progress s @ [Send ?p],
      st_dataParts := maxDataParts env (st_dataParts s)\<rparr>"
  have quiet: "Progress_Error ?p = None"
    by (simp add: startEvent_def newProgress_def)
  have step: "?run s (Inr archive # fwd) = ?run ?s' fwd" for fwd
    using assms by (simp add: Let_def startEvent_def relativeArchive_def)
  from Add_results_trace [of env cwd repository compress encrypt parityParts ?s' fwd]
  obtain events where "st_progress (?run ?s' fwd) = st_progress ?s' @ map Send events @ [Close]"
    by blast
  then have "st_progress (?run s (Inr archive # fwd)) =
      st_progress s @ Send ?p # map Send events @ [Close]"
    unfolding step by simp
  then have trace: "\<exists>events. st_progress (?run s (Inr archive # fwd)) =
      st_progress s @ Send ?p # map Send events @ [Close]"
    by blast
  have others: "?run s (Inr archive # map Inr rest) =
      s\<lparr>st_snapshot := foldl AddArchive (st_snapshot s) (map (relativeArchive env cwd) rest),
        st_chunkIndex :=
          foldl (\<lambda>index a. ChunkIndex_AddArchive env index a (ID (st_snapshot s)))
            (st_chunkIndex s) (map (relativeArchive env cwd) rest),
        st_dataParts := maxDataParts env (st_dataParts s),
        st_progress := st_progress s @
          map (\<lambda>r. Send (startEvent (st_snapshot s) (relativeArchive env cwd r)))
            (archive # rest) @
          [Close]\<rparr>"
    if "\<forall>r \<in> set rest. Archive_Type r \<noteq> File \<and>
          \<not> isSpecialPath env (relativePath env cwd (Archive_Path r))"
    using Add_results_other_entries [OF that, of repository compress encrypt parityParts ?s']
    unfolding step by simp
  from quiet step trace others show ?thesis by blast
qed

theorem Add_skips_vanished_file_witness:
  "IsNotExist (ErrNotExist ''open f: no such file or directory'') \<and>
   st_progress
     (Add_results
        (exPipeline (\<lambda>path. []) (\<lambda>path. Inl (ErrNotExist ''open f: no such file or directory'')))
        ''/home/a'' (exRepository 3 ''pw'') 0 0 0 exState
        [Inr (exArchive ''/home/a/f'' File), Inr (exArchive ''/home/a/g'' Directory)]) =
     [Send (startEvent exSnapshot (exArchive ''f'' File)),
      Send (startEvent exSnapshot (exArchive ''g'' Directory)), Close] \<and>
   Progress_Error (startEvent exSnapshot (exArchive ''f'' File)) = None \<and>
   Progress_Error (startEvent exSnapshot (exArchive ''g'' Directory)) = None \<and>
   Archives (st_snapshot
     (Add_results
        (exPipeline (\<lambda>path. []) (\<lambda>path. Inl (ErrNotExist ''open f: no such file or directory'')))
        ''/home/a'' (exRepository 3 ''pw'') 0 0 0 exState
        [Inr (exArchive ''/home/a/f'' File), Inr (exArchive ''/home/a/g'' Directory)])) ''g'' =
     Some (exArchive ''g'' Directory) \<and>
   Archives (st_snapshot
     (Add_results
        (exPipeline (\<lambda>path. []) (\<lambda>path. Inl (ErrNotExist ''open f: no such file or directory'')))
        ''/home/a'' (exRepository 3 ''pw'') 0 0 0 exState
        [Inr (exArchive ''/home/a/f'' File), Inr (exArchive ''/home/a/g'' Directory)])) ''f'' =
     None \<and>
   st_chunkIndex
     (Add_results
        (exPipeline (\<lambda>path. []) (\<lambda>path. Inl (ErrNotExist ''open f: no such file or directory'')))
        ''/home/a'' (exRepository 3 ''pw'') 0 0 0 exState
        [Inr (exArchive ''/home/a/f'' File), Inr (exArchive ''/home/a/g'' Directory)]) =
     [(''1f0e9a3c'', ''g'')]"
proof -
  let ?env = "exPipeline (\<lambda>path. [])
      (\<lambda>path. Inl (ErrNotExist ''open f: no such file or directory''))"
  let ?f = "exArchive ''/home/a/f'' File"
  let ?g = "exArchive ''/home/a/g'' Directory"
  let ?R = "Add_results ?env ''/home/a'' (exRepository 3 ''pw'') 0 0 0 exState [Inr ?f, Inr ?g]"
  have pf: "relativePath ?env ''/home/a'' (Archive_Path ?f) = ''f''"
    by code_simp
  have pg: "relativePath ?env ''/home/a'' (Archive_Path ?g) = ''g''"
    by code_simp
  have af: "relativeArchive ?env ''/home/a'' ?f = exArchive ''f'' File"
    unfolding relativeArchive_def pf by (simp add: exArchive_def)
  have ag: "relativeArchive ?env ''/home/a'' ?g = exArchive ''g'' Directory"
    unfolding relativeArchive_def pg by (simp add: exArchive_def)
  have h1: "\<not> isSpecialPath ?env (relativePath ?env ''/home/a'' (Archive_Path ?f))"
    unfolding pf by (simp add: exPipeline_def HasPrefix_def)
  have h2: "Archive_Type ?f = File"
    by (simp add: exArchive_def)
  have h3: "chunkFile ?env (relativePath ?env ''/home/a'' (Archive_Path ?f)) 0 0
      (Password (exRepository 3 ''pw'')) (maxDataParts ?env (st_dataParts exState)) 0 =
      Inl (ErrNotExist ''open f: no such file or directory'')"
    by (simp add: exPipeline_def)
  have h4: "IsNotExist (ErrNotExist ''open f: no such file or directory'')"
    by (simp add: IsNotExist_def)
  have h5: "\<forall>r \<in> set [?g]. Archive_Type r \<noteq> File \<and>
      \<not> isSpecialPath ?env (relativePath ?env ''/home/a'' (Archive_Path r))"
    unfolding list.set ball_simps pg by (simp add: exPipeline_def HasPrefix_def exArchive_def)
  note t = Add_skips_vanished_file [OF h1 h2 h3 h4]
  from t [THEN conjunct2, THEN conjunct2, THEN conjunct2, THEN mp, OF h5]
  have R: "?R =
      exState\<lparr>st_snapshot := foldl AddArchive (st_snapshot exState) [exArchive ''g'' Directory],
        st_chunkIndex :=
          foldl (\<lambda>index a. ChunkIndex_AddArchive ?env index a (ID (st_snapshot exState)))
            (st_chunkIndex exState) [exArchive ''g'' Directory],
        st_dataParts := maxDataParts ?env (st_dataParts exState),
        st_progress := st_progress exState @
          [Send (startEvent (st_snapshot exState) (exArchive ''f'' File)),
           Send (startEvent (st_snapshot exState) (exArchive ''g'' Directory))] @ [Close]\<rparr>"
    by (simp only: list.map af ag)
  have quiet: "Progress_Error (startEvent exSnapshot (exArchive ''f'' File)) = None"
    using t [THEN conjunct1] by (simp add: af exState_def)
  have quiet': "Progress_Error (startEvent exSnapshot (exArchive ''g'' Directory)) = None"
    by (simp add: startEvent_def newProgress_def)
  have 1: "st_progress ?R =
     [Send (startEvent exSnapshot (exArchive ''f'' File)),
      Send (startEvent exSnapshot (exArchive ''g'' Directory)), Close]"
    unfolding R by (simp add: exState_def)
  have 2: "Archives (st_snapshot ?R) ''g'' = Some (exArchive ''g'' Directory)"
    unfolding R by (simp add: exState_def AddArchive_def exArchive_def)
  have 3: "Archives (st_snapshot ?R) ''f'' = None"
    unfolding R
    by (simp add: exState_def AddArchive_def exArchive_def exSnapshot_def NewSnapshot_def)
  have 4: "st_chunkIndex ?R = [(''1f0e9a3c'', ''g'')]"
    unfolding R
    by (simp add: exState_def exPipeline_def exArchive_def exSnapshot_def NewSnapshot_def)
  from h4 1 quiet quiet' 2 3 4 show ?thesis by (intro conjI)
qed

subsection \<open>Terminal errors\<close>

text \<open>
  An error of \<open>StoreChunk\<close> is sent in the last event before the channel is closed,
  and the goroutine returns.
\<close>

lemma Add_StoreChunk_error:
  assumes "Backend_StoreChunk backend (st_store s) chunk = ((n, Some e), st')"
  shows "Add_chunks backend err archive p s (Inr chunk # chunkchan) =
     (True, archive,
      s\<lparr>st_store := st',
        st_progress := st_progress s @ [Send (newProgressError (Some e)), Close]\<rparr>)"
  using assms by simp

text \<open>
  C4. An error in a result of the chunker's channel is not sent: line 130 builds the
  event from the variable \<open>err\<close> that \<open>chunkFile\<close> set, which is nil there, and
  not from \<open>cd.Error\<close>. For a file whose chunker yields a read error, the channel
  sees the file's start event, an event without error, and the close.
\<close>

theorem Add_chunker_error_event:
  "st_progress
     (Add_results (exPipeline (\<lambda>path. []) (\<lambda>path. Inr [Inl (OtherError ''read error'')]))
        ''/home/a'' (exRepository 3 ''pw'') 0 0 0 exState [Inr (exArchive ''/home/a/f'' File)]) =
   [Send ((newProgress (exArchive ''f'' File))\<lparr>TotalStatistics := Stats exSnapshot\<rparr>),
    Send (newProgressError None), Close] \<and>
   Progress_Error (newProgressError None) \<noteq> Some (OtherError ''read error'')"
  by code_simp

subsection \<open>Paths\<close>

text \<open>
  The examples of the specification, for the working directory \<open>/home/a\<close>: the path
  \<open>/home/a/x/y\<close> is stored as \<open>x/y\<close>, \<open>/tmp/z\<close> keeps its form, and \<open>/dev/null\<close>
  is not stored.
\<close>

lemma Add_paths_examples:
  "dom (Archives (st_snapshot
     (Add (exPipeline (\<lambda>path. [Inr (exArchive ''/home/a/x/y'' Directory),
                                   Inr (exArchive ''/tmp/z'' Directory),
                                   Inr (exArchive ''/dev/null'' File)]) (\<lambda>path. Inr []))
        exSnapshot ''/home/a'' [''/''] [] (exRepository 3 ''pw'') [] 0 0 1 0 exStore))) =
   {''/tmp/z'', ''x/y''}"
  by (simp add: Add_def exPipeline_def exArchive_def exSnapshot_def NewSnapshot_def
      relativePath_def HasPrefix_def AddArchive_def newProgress_def Let_def
      Rel_def Clean_def relElems_def)

text \<open>
  The loop over the chunks changes neither the path of the archive nor the archives
  of the snapshot.
\<close>

lemma Add_chunks_keeps:
  "Add_chunks backend err archive p s chunkchan = (returned, archive', s') \<Longrightarrow>
     Archive_Path archive' = Archive_Path archive \<and>
     Archives (st_snapshot s') = Archives (st_snapshot s) \<and>
     ID (st_snapshot s') = ID (st_snapshot s)"
proof (induction chunkchan arbitrary: archive p s)
  case Nil
  then show ?case by simp
next
  case (Cons cd chunkchan)
  show ?case
  proof (cases cd)
    case (Inl e)
    with Cons.prems show ?thesis by auto
  next
    case (Inr chunk)
    obtain n e st' where r: "Backend_StoreChunk backend (st_store s) chunk = ((n, e), st')"
      by (metis prod.exhaust)
    show ?thesis
    proof (cases e)
      case (Some a)
      with Cons.prems Inr r show ?thesis by auto
    next
      case None
      with Cons.prems Inr r Cons.IH show ?thesis
        by (simp add: Let_def)
    qed
  qed
qed

text \<open>
  Every path under which the processing stores an archive is the path of a result,
  made relative once more, and \<open>isSpecialPath\<close> does not hold of the path as it is
  stored.
\<close>

lemma Add_results_keys:
  "Archives (st_snapshot (Add_results env cwd repository compress encrypt parityParts s fwd)) path
     = Some a \<Longrightarrow>
   Archives (st_snapshot s) path = Some a \<or>
   (\<exists>r. Inr r \<in> set fwd \<and> path = relativePath env cwd (Archive_Path r) \<and>
        \<not> isSpecialPath env path)"
proof (induction fwd arbitrary: s)
  case Nil
  then show ?case by simp
next
  case (Cons result fwd)
  show ?case
  proof (cases result)
    case (Inl err)
    with Cons.prems show ?thesis by simp
  next
    case (Inr archive0)
    define key where "key = relativePath env cwd (Archive_Path archive0)"
    define archive where "archive = archive0\<lparr>Archive_Path := key\<rparr>"
    define s1 where "s1 = s\<lparr>st_progress := st_progress s @
        [Send ((newProgress archive)\<lparr>TotalStatistics := Stats (st_snapshot s)\<rparr>)]\<rparr>"
    define s2 where "s2 = s1\<lparr>st_dataParts := maxDataParts env (st_dataParts s1)\<rparr>"
    have later: ?thesis
      if "Archives (st_snapshot s') = Archives (st_snapshot s)"
        and "Add_results env cwd repository compress encrypt parityParts s (result # fwd) =
             Add_results env cwd repository compress encrypt parityParts s' fwd" for s'
      using Cons.IH [of s'] Cons.prems that by auto
    have added: ?thesis
      if "\<not> isSpecialPath env key"
        and "Archive_Path archive' = key"
        and "Archives (st_snapshot s') = Archives (st_snapshot s)"
        and "Add_results env cwd repository compress encrypt parityParts s (result # fwd) =
             Add_results env cwd repository compress encrypt parityParts
               (s'\<lparr>st_snapshot := AddArchive (st_snapshot s') archive',
                   st_chunkIndex := idx\<rparr>) fwd" for s' archive' idx
    proof -
      from Cons.prems that(4)
      have "Archives (st_snapshot (Add_results env cwd repository compress encrypt parityParts
               (s'\<lparr>st_snapshot := AddArchive (st_snapshot s') archive',
                   st_chunkIndex := idx\<rparr>) fwd)) path = Some a"
        by simp
      from Cons.IH [OF this] show ?thesis
        using that(1,2,3) Inr by (auto simp: AddArchive_def key_def split: if_splits)
    qed
    show ?thesis
    proof (cases "isSpecialPath env key")
      case True
      show ?thesis
        by (rule later [of s]) (use True Inr in \<open>simp_all add: key_def\<close>)
    next
      case ns: False
      show ?thesis
      proof (cases "Archive_Type archive0 = File")
        case False
        show ?thesis
          by (rule added [OF ns, of archive s1])
            (use False ns Inr in \<open>simp_all add: key_def archive_def s1_def Let_def\<close>)
      next
        case f: True
        show ?thesis
        proof (cases "chunkFile env key compress encrypt (Password repository)
            (st_dataParts s2) parityParts")
          case (Inl err)
          show ?thesis
          proof (cases "IsNotExist err")
            case True
            show ?thesis
              by (rule later [of s2])
                (use True Inl f ns Inr in
                  \<open>simp_all add: key_def archive_def s1_def s2_def Let_def\<close>)
          next
            case False
            with Inl f ns Inr Cons.prems show ?thesis
              by (simp add: key_def archive_def s1_def s2_def Let_def)
          qed
        next
          case c: (Inr chunkchan)
          obtain returned archive' s3 where
            r: "Add_chunks (Backend repository) None
                  (archive\<lparr>Archive_Encrypted := encrypt, Archive_Compressed := compress\<rparr>)
                  ((newProgress archive)\<lparr>TotalStatistics := Stats (st_snapshot s)\<rparr>) s2 chunkchan =
                (returned, archive', s3)"
            by (metis prod.exhaust)
          from Add_chunks_keeps [OF r]
          have k: "Archive_Path archive' = key"
            "Archives (st_snapshot s3) = Archives (st_snapshot s)"
            by (simp_all add: archive_def s2_def s1_def)
          show ?thesis
          proof (cases returned)
            case True
            with r c f ns Inr Cons.prems k show ?thesis
              by (simp add: key_def archive_def s1_def s2_def Let_def)
          next
            case False
            show ?thesis
              by (rule added [OF ns k])
                (use False r c f ns Inr in
                  \<open>simp add: key_def archive_def s1_def s2_def Let_def\<close>)
          qed
        qed
      qed
    qed
  qed
qed


text \<open>
  Every result the discovery sends on without error is a result of the traversal with
  its path made relative, and the discovery leaves the archives of the snapshot alone.
\<close>

lemma gatherResults_sent:
  "gatherResults env cwd snapshot c = (snapshot', out) \<Longrightarrow>
     Archives snapshot' = Archives snapshot \<and>
     (\<forall>r. Inr r \<in> set out \<longrightarrow>
        (\<exists>r0. Inr r0 \<in> set c \<and>
              Archive_Path r = relativePath env cwd (Archive_Path r0)))"
proof (induction c arbitrary: snapshot snapshot' out)
  case Nil
  then show ?case by simp
next
  case (Cons result c)
  show ?case
  proof (cases result)
    case (Inl err)
    with Cons.prems obtain out' where
      "gatherResults env cwd snapshot c = (snapshot', out')" "out = Inl err # out'"
      by (auto split: prod.splits)
    with Cons.IH [of snapshot snapshot' out'] show ?thesis by auto
  next
    case (Inr archive)
    show ?thesis
    proof (cases "isSpecialPath env (relativePath env cwd (Archive_Path archive))")
      case True
      with Cons.prems Inr have "gatherResults env cwd snapshot c = (snapshot', out)"
        by (simp add: Let_def)
      with Cons.IH [of snapshot snapshot' out] show ?thesis by auto
    next
      case False
      with Cons.prems Inr obtain out' where
        g: "gatherResults env cwd
              (snapshot\<lparr>Stats := (Stats snapshot)
                 \<lparr>Size := Size (Stats snapshot) + Archive_Size archive\<rparr>\<rparr>) c = (snapshot', out')"
        and o: "out = Inr (archive\<lparr>Archive_Path :=
                       relativePath env cwd (Archive_Path archive)\<rparr>) # out'"
        by (auto simp: Let_def split: prod.splits)
      from Cons.IH [OF g] o Inr show ?thesis by auto
    qed
  qed
qed

lemma gatherTargetInformation_sent:
  "gatherTargetInformation env cwd paths excludes snapshot = (snapshot', out) \<Longrightarrow>
     Archives snapshot' = Archives snapshot \<and>
     (\<forall>r. Inr r \<in> set out \<longrightarrow>
        (\<exists>p r0. p \<in> set paths \<and> Inr r0 \<in> set (findFiles env p excludes) \<and>
              Archive_Path r = relativePath env cwd (Archive_Path r0)))"
proof (induction paths arbitrary: snapshot snapshot' out)
  case Nil
  then show ?case by simp
next
  case (Cons path paths)
  from Cons.prems obtain snapshot1 out1 out2 where
    g1: "gatherResults env cwd snapshot (findFiles env path excludes) = (snapshot1, out1)"
    and g2: "gatherTargetInformation env cwd paths excludes snapshot1 = (snapshot', out2)"
    and o: "out = out1 @ out2"
    by (auto split: prod.splits)
  from gatherResults_sent [OF g1] Cons.IH [OF g2] o show ?case
    by (auto; metis)
qed

text \<open>
  Hence every path under which \<open>Add\<close> stores an archive is a path the traversal found,
  made relative to the working directory twice. \<open>isSpecialPath\<close> is asked of the path
  after it has been made relative, and does not hold of the path as it is stored; of
  the path as it was found it may hold.
\<close>

lemma Add_keys:
  assumes "Archives (st_snapshot
      (Add env snap cwd paths excludes repository index compress encrypt dParts parityParts st))
      path = Some a"
  shows "Archives snap path = Some a \<or>
     (\<exists>p r0. p \<in> set paths \<and> Inr r0 \<in> set (findFiles env p excludes) \<and>
        path = relativePath env cwd (relativePath env cwd (Archive_Path r0)) \<and>
        \<not> isSpecialPath env path)"
proof -
  obtain snap' fwd where g: "gatherTargetInformation env cwd paths excludes snap = (snap', fwd)"
    by (metis prod.exhaust)
  with assms have "Archives (st_snapshot (Add_results env cwd repository compress encrypt
      parityParts \<lparr>st_snapshot = snap', st_chunkIndex = index, st_store = st,
        st_dataParts = dParts, st_progress = []\<rparr> fwd)) path = Some a"
    by (simp add: Add_def)
  from Add_results_keys [OF this] gatherTargetInformation_sent [OF g]
  show ?thesis by (auto; metis)
qed

text \<open>
  C8. The path is made relative twice, once by the discovery and once more by the
  processing, which is handed the path the discovery has already replaced. With the
  relative working directory \<open>a\<close>, the directory \<open>a/a/x\<close> lies under it and its
  relative path is \<open>a/x\<close>; the snapshot holds it under \<open>x\<close>, and nothing under
  \<open>a/x\<close>.
\<close>

theorem Add_stores_twice_relative_path:
  "Rel ''a'' ''a/a/x'' = Inr ''a/x'' \<and>
   Archives (st_snapshot
     (Add (exPipeline (\<lambda>path. [Inr (exArchive ''a/a/x'' Directory)]) (\<lambda>path. Inr []))
        exSnapshot ''a'' [''a/a/x''] [] (exRepository 3 ''pw'') [] 0 0 1 0 exStore)) ''a/x'' = None \<and>
   Archives (st_snapshot
     (Add (exPipeline (\<lambda>path. [Inr (exArchive ''a/a/x'' Directory)]) (\<lambda>path. Inr []))
        exSnapshot ''a'' [''a/a/x''] [] (exRepository 3 ''pw'') [] 0 0 1 0 exStore)) ''x'' =
     Some (exArchive ''x'' Directory)"
  by code_simp

end
